theory Spec2Isabelle
  imports Main "HOL-Library.Word"
begin

unbundle bit_operations_syntax

section \<open>Address manager of abcwallet (package udb)\<close>

text \<open>
  A shallow embedding of the address manager of \<^verbatim>\<open>udb\<close> (the manager source file).
  Go values are modelled as follows: \<^verbatim>\<open>uint32\<close> is \<open>32 word\<close>, a byte slice or byte
  array is a list of \<open>8 word\<close>, an error code of \<^verbatim>\<open>apperrors\<close> is a constructor of
  \<open>ErrorCode\<close>, a call that returns \<^verbatim>\<open>error\<close> returns \<open>ErrorCode option\<close> (\<open>None\<close> is
  \<^verbatim>\<open>nil\<close>) next to the state it leaves behind.
\<close>

type_synonym byte = "8 word"
type_synonym bytes = "byte list"
type_synonym u32 = "32 word"

datatype ErrorCode =
    ErrAlreadyExists | ErrCoinTypeTooHigh | ErrAccountNumTooHigh | ErrLocked
  | ErrWatchingOnly | ErrWrongPassphrase | ErrEmptyPassphrase | ErrWrongNet
  | ErrDuplicateAddress | ErrDuplicateAccount | ErrInvalidAccount | ErrInvalidKeyType
  | ErrKeyChain | ErrCrypto | ErrDatabase | ErrData | ErrTooManyAddresses
  | ErrBranch | ErrNotFound | ErrInput | ErrUnimplemented

subsection \<open>Constants\<close>

definition HardenedKeyStart :: u32 where
  "HardenedKeyStart = 0x80000000"

definition MaxAccountNum :: u32 where
  "MaxAccountNum = HardenedKeyStart - 2"

definition MaxAddressesPerAccount :: u32 where
  "MaxAddressesPerAccount = HardenedKeyStart - 1"

definition ImportedAddrAccount :: u32 where
  "ImportedAddrAccount = MaxAccountNum + 1"

definition ImportedAddrAccountName :: string where
  "ImportedAddrAccountName = ''imported''"

definition DefaultAccountNum :: u32 where
  "DefaultAccountNum = 0"

definition defaultAccountName :: string where
  "defaultAccountName = ''default''"

definition maxCoinType :: u32 where
  "maxCoinType = HardenedKeyStart - 1"

definition ExternalBranch :: u32 where
  "ExternalBranch = 0"

definition InternalBranch :: u32 where
  "InternalBranch = 1"

definition sentinel :: u32 where
  "sentinel = 0xFFFFFFFF"

definition isReservedAccountName :: "string \<Rightarrow> bool" where
  "isReservedAccountName nm = (nm = ImportedAddrAccountName)"

definition isReservedAccountNum :: "u32 \<Rightarrow> bool" where
  "isReservedAccountNum acct = (acct = ImportedAddrAccount)"

subsection \<open>The persisted store\<close>

text \<open>
  Modelled from the spec: the bucket layer (\<^verbatim>\<open>fetchAccountInfo\<close>, \<^verbatim>\<open>putAccountRow\<close>,
  \<^verbatim>\<open>bip0044AccountInfo\<close>, \<^verbatim>\<open>fetchAddress\<close>, \<^verbatim>\<open>putChainedAddress\<close> and the other
  \<^verbatim>\<open>fetch\<close>/\<^verbatim>\<open>put\<close>/\<^verbatim>\<open>delete\<close> helpers) is not part of the manager source file. The
  store below follows sections 3 and 4.3 of the specification: one namespace with the
  fixed buckets, an account row with the wrapped keys, the four branch index fields and
  the name, and three variants of address rows. A missing row is \<open>ErrNotFound\<close>; a write
  refused by the underlying store is \<open>ErrDatabase\<close>. The field \<open>writeBudget\<close> is the
  number of writes the underlying store will still accept (\<open>None\<close>: it never refuses),
  so that every write of the manager has its failing branch.
\<close>

record dbBIP0044AccountRow =
  pubKeyEncrypted :: bytes
  privKeyEncrypted :: bytes
  nextExternalIndex :: u32
  nextInternalIndex :: u32
  lastUsedExternalIndex :: u32
  lastUsedInternalIndex :: u32
  lastReturnedExternalIndex :: u32
  lastReturnedInternalIndex :: u32
  name :: string

datatype dbAddressRow =
    dbChainAddressRow u32 u32 u32
  | dbImportedAddressRow u32 bytes bytes
  | dbScriptAddressRow u32 bytes bytes

record store =
  nsCreated :: bool
  masterKeyPubParams :: "bytes option"
  masterKeyPrivParams :: "bytes option"
  cryptoKeyPubEnc :: "bytes option"
  cryptoKeyPrivEnc :: "bytes option"
  cryptoKeyScriptEnc :: "bytes option"
  coinTypePubEnc :: "bytes option"
  coinTypePrivEnc :: "bytes option"
  watchingOnlyFlag :: "bool option"
  acctBucket :: "u32 \<Rightarrow> dbBIP0044AccountRow option"
  acctNameIdx :: "string \<Rightarrow> u32 option"
  acctIdIdx :: "u32 \<Rightarrow> string option"
  addrBucket :: "bytes \<Rightarrow> dbAddressRow option"
  addrAcctIdx :: "bytes \<Rightarrow> u32 option"
  nextToUsePool :: "bool \<times> u32 \<Rightarrow> u32 option"
  lastAccount :: "u32 option"
  writeBudget :: "nat option"

definition dbWrite :: "store \<Rightarrow> (store \<Rightarrow> store) \<Rightarrow> ErrorCode + store" where
  "dbWrite ns f =
     (case writeBudget ns of
        None \<Rightarrow> Inr (f ns)
      | Some 0 \<Rightarrow> Inl ErrDatabase
      | Some (Suc n) \<Rightarrow> Inr (f (ns\<lparr>writeBudget := Some n\<rparr>)))"

definition bip0044AccountInfo ::
  "bytes \<Rightarrow> bytes \<Rightarrow> u32 \<Rightarrow> u32 \<Rightarrow> u32 \<Rightarrow> u32 \<Rightarrow> u32 \<Rightarrow> u32 \<Rightarrow> string \<Rightarrow> dbBIP0044AccountRow" where
  "bip0044AccountInfo pubKeyEnc privKeyEnc nextExt nextInt lastUsedExt lastUsedInt
      lastRetExt lastRetInt nm =
     \<lparr>pubKeyEncrypted = pubKeyEnc, privKeyEncrypted = privKeyEnc,
      nextExternalIndex = nextExt, nextInternalIndex = nextInt,
      lastUsedExternalIndex = lastUsedExt, lastUsedInternalIndex = lastUsedInt,
      lastReturnedExternalIndex = lastRetExt, lastReturnedInternalIndex = lastRetInt,
      name = nm\<rparr>"

definition fetchAccountInfo :: "store \<Rightarrow> u32 \<Rightarrow> ErrorCode + dbBIP0044AccountRow" where
  "fetchAccountInfo ns account =
     (case acctBucket ns account of None \<Rightarrow> Inl ErrNotFound | Some row \<Rightarrow> Inr row)"

definition putAccountRow :: "store \<Rightarrow> u32 \<Rightarrow> dbBIP0044AccountRow \<Rightarrow> ErrorCode + store" where
  "putAccountRow ns account row =
     dbWrite ns (\<lambda>d. d\<lparr>acctBucket := (acctBucket d)(account \<mapsto> row)\<rparr>)"

definition errOf :: "ErrorCode + store \<Rightarrow> store \<Rightarrow> ErrorCode option \<times> store" where
  "errOf r ns = (case r of Inl e \<Rightarrow> (Some e, ns) | Inr ns' \<Rightarrow> (None, ns'))"

subsection \<open>Marking child indexes used and returned\<close>

definition maxUint32 :: "u32 \<Rightarrow> u32 \<Rightarrow> u32" where
  "maxUint32 a b = (if a > b then a else b)"

definition MarkUsedChildIndex :: "store \<Rightarrow> u32 \<Rightarrow> u32 \<Rightarrow> u32 \<Rightarrow> ErrorCode option \<times> store" where
  "MarkUsedChildIndex ns account branch child =
     (case fetchAccountInfo ns account of
        Inl e \<Rightarrow> (Some e, ns)
      | Inr row \<Rightarrow>
          if branch \<noteq> ExternalBranch \<and> branch \<noteq> InternalBranch then (Some ErrBranch, ns)
          else
            let lastUsedExtIndex =
                  (if branch = ExternalBranch then child else lastUsedExternalIndex row);
                lastUsedIntIndex =
                  (if branch = ExternalBranch then lastUsedInternalIndex row else child)
            in if lastUsedExtIndex + 1 < lastUsedExternalIndex row + 1 \<or>
                  lastUsedIntIndex + 1 < lastUsedInternalIndex row + 1
               then (None, ns)
               else
                 let lastRetExtIndex =
                       maxUint32 (lastUsedExtIndex + 1) (lastReturnedExternalIndex row + 1) - 1;
                     lastRetIntIndex =
                       maxUint32 (lastUsedIntIndex + 1) (lastReturnedInternalIndex row + 1) - 1
                 in errOf (putAccountRow ns account
                      (bip0044AccountInfo (pubKeyEncrypted row) (privKeyEncrypted row) 0 0
                         lastUsedExtIndex lastUsedIntIndex lastRetExtIndex lastRetIntIndex
                         (name row))) ns)"

definition MarkReturnedChildIndex :: "store \<Rightarrow> u32 \<Rightarrow> u32 \<Rightarrow> u32 \<Rightarrow> ErrorCode option \<times> store" where
  "MarkReturnedChildIndex ns account branch child =
     (case fetchAccountInfo ns account of
        Inl e \<Rightarrow> (Some e, ns)
      | Inr row \<Rightarrow>
          if branch \<noteq> ExternalBranch \<and> branch \<noteq> InternalBranch then (Some ErrBranch, ns)
          else
            let lastRetExtIndex0 =
                  (if branch = ExternalBranch then child else lastReturnedExternalIndex row);
                lastRetIntIndex0 =
                  (if branch = ExternalBranch then lastReturnedInternalIndex row else child)
            in if lastRetExtIndex0 + 1 < lastReturnedExternalIndex row + 1 \<or>
                  lastRetIntIndex0 + 1 < lastReturnedInternalIndex row + 1
               then (None, ns)
               else
                 let lastRetExtIndex =
                       maxUint32 (lastUsedExternalIndex row + 1) (lastRetExtIndex0 + 1) - 1;
                     lastRetIntIndex =
                       maxUint32 (lastUsedInternalIndex row + 1) (lastRetIntIndex0 + 1) - 1
                 in errOf (putAccountRow ns account
                      (bip0044AccountInfo (pubKeyEncrypted row) (privKeyEncrypted row) 0 0
                         (lastUsedExternalIndex row) (lastUsedInternalIndex row)
                         lastRetExtIndex lastRetIntIndex (name row))) ns)"


definition idxLe :: "u32 \<Rightarrow> u32 \<Rightarrow> bool" where
  "idxLe a b = (a + 1 \<le> b + 1)"

definition lastUsedOf :: "u32 \<Rightarrow> dbBIP0044AccountRow \<Rightarrow> u32" where
  "lastUsedOf branch row =
     (if branch = ExternalBranch then lastUsedExternalIndex row else lastUsedInternalIndex row)"

definition lastReturnedOf :: "u32 \<Rightarrow> dbBIP0044AccountRow \<Rightarrow> u32" where
  "lastReturnedOf branch row =
     (if branch = ExternalBranch then lastReturnedExternalIndex row
      else lastReturnedInternalIndex row)"

definition returnedCoversUsed :: "dbBIP0044AccountRow \<Rightarrow> bool" where
  "returnedCoversUsed row =
     (idxLe (lastUsedExternalIndex row) (lastReturnedExternalIndex row) \<and>
      idxLe (lastUsedInternalIndex row) (lastReturnedInternalIndex row))"

subsection \<open>External libraries\<close>

text \<open>
  The passphrase keys and data-encryption keys (\<^verbatim>\<open>snacl\<close>), the extended keys
  (\<^verbatim>\<open>hdkeychain\<close>), SHA-512 and the random source are libraries outside the manager.
  Their functions are the fields of an environment \<open>env\<close> that every operation takes, so
  each theorem holds for whatever these libraries compute. An extended key, a private key
  scalar and a symmetric key are byte strings; \<open>None\<close> is the library's error return.
  \<^item> \<open>skDerive params passphrase\<close> is \<^verbatim>\<open>SecretKey.DeriveKey\<close>: its status, and the bytes it
    leaves in the key buffer when it writes them;
  \<^item> \<open>skNew passphrase options\<close> is \<^verbatim>\<open>newSecretKey\<close>: the marshalled parameters and the key;
  \<^item> \<open>ckNew i\<close> is the \<open>i\<close>-th call of \<^verbatim>\<open>newCryptoKey\<close>, \<open>randRead\<close> is \<^verbatim>\<open>rand.Read\<close> of a salt;
  \<^item> \<open>cEncrypt key plain\<close> and \<open>cDecrypt key cipher\<close> are the authenticated encryption of
    \<^verbatim>\<open>CryptoKey\<close>, which \<^verbatim>\<open>SecretKey\<close> applies to its own key;
  \<^item> \<open>hdChild key i\<close> is \<^verbatim>\<open>ExtendedKey.Child\<close>, with \<^verbatim>\<open>ErrInvalidChild\<close> told apart from
    every other failure, as the manager does;
  \<^item> \<open>hdAddress key\<close> is the hash of the pay-to-pubkey-hash address of an extended key
    (\<^verbatim>\<open>Address\<close> followed by \<^verbatim>\<open>Hash160\<close>), and \<open>hash160\<close> is \<^verbatim>\<open>abcutil.Hash160\<close> of a serialized
    public key.
\<close>

datatype DeriveStatus = DeriveOk | ErrInvalidPassword | DeriveFailed

datatype ChildResult = ChildKey bytes | ErrInvalidChild | ChildFailed

record ScryptOptions =
  optN :: int
  optR :: int
  optP :: int

definition defaultScryptOptions :: ScryptOptions where
  "defaultScryptOptions = \<lparr>optN = 262144, optR = 8, optP = 1\<rparr>"

record env =
  sha512Sum :: "bytes \<Rightarrow> bytes"
  skDerive :: "bytes \<Rightarrow> bytes \<Rightarrow> DeriveStatus \<times> bytes option"
  skNew :: "bytes \<Rightarrow> ScryptOptions \<Rightarrow> (bytes \<times> bytes) option"
  ckNew :: "nat \<Rightarrow> bytes option"
  randRead :: "bytes option"
  cEncrypt :: "bytes \<Rightarrow> bytes \<Rightarrow> bytes option"
  cDecrypt :: "bytes \<Rightarrow> bytes \<Rightarrow> bytes option"
  hdNewMaster :: "bytes \<Rightarrow> bytes option"
  hdNewKeyFromString :: "bytes \<Rightarrow> ChildResult"
  hdChild :: "bytes \<Rightarrow> u32 \<Rightarrow> ChildResult"
  hdNeuter :: "bytes \<Rightarrow> bytes option"
  hdString :: "bytes \<Rightarrow> bytes option"
  hdIsForNet :: "bytes \<Rightarrow> bool"
  hdAddress :: "bytes \<Rightarrow> bytes"
  hdECPrivKey :: "bytes \<Rightarrow> bytes option"
  privKeyFromBytes :: "bytes \<Rightarrow> bytes"
  hash160 :: "bytes \<Rightarrow> bytes"

subsection \<open>Memory\<close>

text \<open>
  The manager holds pointers to buffers that it zeroes in place and then drops, and it
  hands the same buffers to its callers. The buffers therefore live in an explicit memory,
  a list of cells; a pointer is an index into it and \<^verbatim>\<open>nil\<close> is \<open>None\<close>. Allocation
  appends a cell, so a cell is never reused. A call through a \<^verbatim>\<open>nil\<close> pointer panics: the
  operation does not return, which is the result \<open>None\<close> of the operation.
\<close>

type_synonym ref = nat
type_synonym memory = "bytes list"

definition rd :: "memory \<Rightarrow> ref \<Rightarrow> bytes" where
  "rd h r = (if r < length h then h ! r else [])"

definition slice :: "memory \<Rightarrow> ref option \<Rightarrow> bytes" where
  "slice h p = (case p of None \<Rightarrow> [] | Some r \<Rightarrow> rd h r)"

definition writeAt :: "memory \<Rightarrow> ref \<Rightarrow> bytes \<Rightarrow> memory" where
  "writeAt h r b = (if r < length h then h[r := b] else h)"

definition zeroAt :: "memory \<Rightarrow> ref \<Rightarrow> memory" where
  "zeroAt h r = writeAt h r (replicate (length (rd h r)) 0)"

definition zeroOpt :: "memory \<Rightarrow> ref option \<Rightarrow> memory" where
  "zeroOpt h p = (case p of None \<Rightarrow> h | Some r \<Rightarrow> zeroAt h r)"

definition copyInto :: "memory \<Rightarrow> ref \<Rightarrow> bytes \<Rightarrow> memory" where
  "copyInto h r src =
     writeAt h r (take (length (rd h r)) src @ drop (length src) (rd h r))"

definition copyIntoOpt :: "memory \<Rightarrow> ref option \<Rightarrow> bytes \<Rightarrow> memory" where
  "copyIntoOpt h p src = (case p of None \<Rightarrow> h | Some r \<Rightarrow> copyInto h r src)"

definition alloc :: "memory \<Rightarrow> bytes \<Rightarrow> ref \<times> memory" where
  "alloc h b = (length h, h @ [b])"

definition zeroed :: "memory \<Rightarrow> ref \<Rightarrow> bool" where
  "zeroed h r = (\<forall>b \<in> set (rd h r). b = 0)"

subsection \<open>The manager\<close>

record accountInfo =
  acctName :: string
  acctKeyEncrypted :: "ref option"
  acctKeyPriv :: "ref option"
  acctKeyPub :: "ref option"

record SecretKey =
  Key :: "ref option"
  Parameters :: bytes

text \<open>
  The two maps of returned secrets and the account cache are association lists; a \<^verbatim>\<open>nil\<close>
  map is \<open>None\<close>. Go ranges over a map in no fixed order: the order of the list stands for
  the order of one run, and every theorem holds for every list.
\<close>

record Manager =
  returnedPrivKeys :: "(bytes \<times> ref) list option"
  returnedScripts :: "(bytes \<times> ref) list option"
  watchingOnly :: bool
  locked :: bool
  closed :: bool
  acctInfo :: "(u32 \<times> accountInfo) list"
  masterKeyPub :: SecretKey
  masterKeyPriv :: "SecretKey option"
  cryptoKeyPub :: ref
  cryptoKeyPrivEncrypted :: "ref option"
  cryptoKeyPriv :: "ref option"
  cryptoKeyScriptEncrypted :: "ref option"
  cryptoKeyScript :: "ref option"
  privPassphraseSalt :: bytes
  hashedPrivPassphrase :: bytes
  heap :: memory

definition secretRefs :: "(bytes \<times> ref) list option \<Rightarrow> ref list" where
  "secretRefs mp = (case mp of None \<Rightarrow> [] | Some al \<Rightarrow> map snd al)"

definition optRefs :: "ref option \<Rightarrow> ref list" where
  "optRefs p = (case p of None \<Rightarrow> [] | Some r \<Rightarrow> [r])"

definition clearAcctKeyPriv :: "u32 \<times> accountInfo \<Rightarrow> u32 \<times> accountInfo" where
  "clearAcctKeyPriv na = (fst na, (snd na)\<lparr>acctKeyPriv := None\<rparr>)"

definition lock :: "Manager \<Rightarrow> Manager option" where
  "lock m =
     (let h1 = foldl zeroOpt (heap m) (map (\<lambda>na. acctKeyPriv (snd na)) (acctInfo m));
          ai = map clearAcctKeyPriv (acctInfo m);
          h2 = foldl zeroAt h1 (secretRefs (returnedPrivKeys m));
          h3 = foldl zeroAt h2 (secretRefs (returnedScripts m))
      in case cryptoKeyScript m of
           None \<Rightarrow> None
         | Some cs \<Rightarrow>
             (case cryptoKeyPriv m of
                None \<Rightarrow> None
              | Some cp \<Rightarrow>
                  (case masterKeyPriv m of
                     None \<Rightarrow> None
                   | Some mk \<Rightarrow>
                       (case Key mk of
                          None \<Rightarrow> None
                        | Some k \<Rightarrow>
                            Some (m\<lparr>acctInfo := ai, returnedPrivKeys := None,
                                    returnedScripts := None,
                                    heap := zeroAt (zeroAt (zeroAt h3 cs) cp) k,
                                    hashedPrivPassphrase := replicate 64 0,
                                    locked := True\<rparr>)))))"

fun zeroAcctKeyPubs :: "(u32 \<times> accountInfo) list \<Rightarrow> memory \<Rightarrow> ((u32 \<times> accountInfo) list \<times> memory) option" where
  "zeroAcctKeyPubs [] h = Some ([], h)"
| "zeroAcctKeyPubs (na # rest) h =
     (case acctKeyPub (snd na) of
        None \<Rightarrow> None
      | Some r \<Rightarrow>
          (case zeroAcctKeyPubs rest (zeroAt h r) of
             None \<Rightarrow> None
           | Some (rest', h') \<Rightarrow> Some ((fst na, (snd na)\<lparr>acctKeyPub := None\<rparr>) # rest', h')))"

definition zeroSensitivePublicData :: "Manager \<Rightarrow> Manager option" where
  "zeroSensitivePublicData m =
     (case zeroAcctKeyPubs (acctInfo m) (heap m) of
        None \<Rightarrow> None
      | Some (ai, h1) \<Rightarrow>
          (case Key (masterKeyPub m) of
             None \<Rightarrow> None
           | Some k \<Rightarrow> Some (m\<lparr>acctInfo := ai, heap := zeroAt (zeroAt h1 (cryptoKeyPub m)) k\<rparr>)))"

definition Close :: "Manager \<Rightarrow> (ErrorCode option \<times> Manager) option" where
  "Close m =
     (case (if \<not> watchingOnly m \<and> \<not> locked m then lock m else Some m) of
        None \<Rightarrow> None
      | Some m1 \<Rightarrow>
          (case zeroSensitivePublicData m1 of
             None \<Rightarrow> None
           | Some m2 \<Rightarrow> Some (None, m2\<lparr>closed := True\<rparr>)))"

definition IsLocked :: "Manager \<Rightarrow> bool" where
  "IsLocked m = locked m"

definition Lock :: "Manager \<Rightarrow> (ErrorCode option \<times> Manager) option" where
  "Lock m =
     (if watchingOnly m then Some (Some ErrWatchingOnly, m)
      else if locked m then Some (Some ErrLocked, m)
      else (case lock m of None \<Rightarrow> None | Some m' \<Rightarrow> Some (None, m')))"

definition DeriveKey :: "env \<Rightarrow> SecretKey \<Rightarrow> bytes \<Rightarrow> memory \<Rightarrow> (DeriveStatus \<times> memory) option" where
  "DeriveKey e sk passphrase h =
     (case Key sk of
        None \<Rightarrow> None
      | Some k \<Rightarrow>
          Some (fst (skDerive e (Parameters sk) passphrase),
                (case snd (skDerive e (Parameters sk) passphrase) of
                   None \<Rightarrow> h
                 | Some b \<Rightarrow> writeAt h k b)))"

fun unlockAccounts ::
  "env \<Rightarrow> ref \<Rightarrow> (u32 \<times> accountInfo) list \<Rightarrow> memory \<Rightarrow>
     ErrorCode option \<times> (u32 \<times> accountInfo) list \<times> memory" where
  "unlockAccounts e cp [] h = (None, [], h)"
| "unlockAccounts e cp (na # rest) h =
     (case cDecrypt e (rd h cp) (slice h (acctKeyEncrypted (snd na))) of
        None \<Rightarrow> (Some ErrCrypto, na # rest, h)
      | Some decrypted \<Rightarrow>
          (case hdNewKeyFromString e decrypted of
             ChildKey acctKeyPriv' \<Rightarrow>
               (case unlockAccounts e cp rest (snd (alloc h acctKeyPriv')) of
                  (err, rest', h') \<Rightarrow>
                    (err, (fst na, (snd na)\<lparr>acctKeyPriv := Some (fst (alloc h acctKeyPriv'))\<rparr>) # rest', h'))
           | _ \<Rightarrow> (Some ErrKeyChain, na # rest, h)))"

definition lockWith :: "ErrorCode \<Rightarrow> Manager \<Rightarrow> (ErrorCode option \<times> Manager) option" where
  "lockWith err m = (case lock m of None \<Rightarrow> None | Some m' \<Rightarrow> Some (Some err, m'))"

definition Unlock :: "env \<Rightarrow> Manager \<Rightarrow> bytes \<Rightarrow> (ErrorCode option \<times> Manager) option" where
  "Unlock e m passphrase =
     (if watchingOnly m then Some (Some ErrWatchingOnly, m)
      else if \<not> locked m then
        (if sha512Sum e (privPassphraseSalt m @ passphrase) \<noteq> hashedPrivPassphrase m
         then lockWith ErrWrongPassphrase m
         else Some (None, m))
      else
        (case masterKeyPriv m of
           None \<Rightarrow> None
         | Some mk \<Rightarrow>
             (case DeriveKey e mk passphrase (heap m) of
                None \<Rightarrow> None
              | Some (st, h1) \<Rightarrow>
                  if st = ErrInvalidPassword then lockWith ErrWrongPassphrase (m\<lparr>heap := h1\<rparr>)
                  else if st \<noteq> DeriveOk then lockWith ErrCrypto (m\<lparr>heap := h1\<rparr>)
                  else
                    (case cDecrypt e (slice h1 (Key mk)) (slice h1 (cryptoKeyPrivEncrypted m)) of
                       None \<Rightarrow> lockWith ErrCrypto (m\<lparr>heap := h1\<rparr>)
                     | Some decryptedKey \<Rightarrow>
                         (case cryptoKeyPriv m of
                            None \<Rightarrow> None
                          | Some cp \<Rightarrow>
                              (case unlockAccounts e cp (acctInfo m) (copyInto h1 cp decryptedKey) of
                                 (Some err, ai, h3) \<Rightarrow> lockWith err (m\<lparr>acctInfo := ai, heap := h3\<rparr>)
                               | (None, ai, h3) \<Rightarrow>
                                   Some (None, m\<lparr>acctInfo := ai, heap := h3, locked := False,
                                                 hashedPrivPassphrase :=
                                                   sha512Sum e (privPassphraseSalt m @ passphrase)\<rparr>)))))))"

text \<open>The private-tier buffers a manager state points to, and the public-tier ones.\<close>

definition privRefs :: "Manager \<Rightarrow> ref list" where
  "privRefs m =
     concat (map (\<lambda>na. optRefs (acctKeyPriv (snd na))) (acctInfo m)) @
     secretRefs (returnedPrivKeys m) @ secretRefs (returnedScripts m) @
     optRefs (cryptoKeyScript m) @ optRefs (cryptoKeyPriv m) @
     (case masterKeyPriv m of None \<Rightarrow> [] | Some mk \<Rightarrow> optRefs (Key mk))"

definition pubRefs :: "Manager \<Rightarrow> ref list" where
  "pubRefs m =
     concat (map (\<lambda>na. optRefs (acctKeyPub (snd na))) (acctInfo m)) @
     [cryptoKeyPub m] @ optRefs (Key (masterKeyPub m))"

subsection \<open>Further operations\<close>

text \<open>The passphrase does not match: on an unlocked manager its salted hash differs from
  the cached one; on a locked manager deriving the master private key reports an invalid
  password.\<close>

definition passphraseMismatch :: "env \<Rightarrow> Manager \<Rightarrow> bytes \<Rightarrow> bool" where
  "passphraseMismatch e m passphrase =
     (if locked m then
        (case masterKeyPriv m of
           None \<Rightarrow> False
         | Some mk \<Rightarrow> fst (skDerive e (Parameters mk) passphrase) = ErrInvalidPassword)
      else sha512Sum e (privPassphraseSalt m @ passphrase) \<noteq> hashedPrivPassphrase m)"

text \<open>Modelled from the spec: the remaining helpers of the bucket layer, which are not
  part of the manager source file (section 4.3 of the specification). \<^verbatim>\<open>deletePrivateKeys\<close>
  removes every private-tier ciphertext: the master private key parameters, the wrapped
  crypto private and script keys, the wrapped coin-type private key, and the private field
  of every account row and of every imported address row. \<^verbatim>\<open>createManagerNS\<close> creates the
  namespace with last account \<open>0\<close>. \<^verbatim>\<open>maybeConvertDbError\<close> keeps an error that already
  carries a code, so it is the identity on \<open>ErrorCode\<close>.\<close>

definition fetchAccountByName :: "store \<Rightarrow> string \<Rightarrow> ErrorCode + u32" where
  "fetchAccountByName ns nm =
     (case acctNameIdx ns nm of None \<Rightarrow> Inl ErrNotFound | Some a \<Rightarrow> Inr a)"

definition fetchLastAccount :: "store \<Rightarrow> ErrorCode + u32" where
  "fetchLastAccount ns = (case lastAccount ns of None \<Rightarrow> Inl ErrNotFound | Some a \<Rightarrow> Inr a)"

definition fetchCoinTypeKeys :: "store \<Rightarrow> ErrorCode + bytes \<times> bytes" where
  "fetchCoinTypeKeys ns =
     (case coinTypePubEnc ns of
        None \<Rightarrow> Inl ErrNotFound
      | Some pub \<Rightarrow>
          (case coinTypePrivEnc ns of None \<Rightarrow> Inl ErrNotFound | Some priv \<Rightarrow> Inr (pub, priv)))"

definition fetchAddress :: "store \<Rightarrow> bytes \<Rightarrow> ErrorCode + dbAddressRow" where
  "fetchAddress ns addressID =
     (case addrBucket ns addressID of None \<Rightarrow> Inl ErrNotFound | Some row \<Rightarrow> Inr row)"


definition putAccountIDIndex :: "store \<Rightarrow> u32 \<Rightarrow> string \<Rightarrow> ErrorCode + store" where
  "putAccountIDIndex ns account nm =
     dbWrite ns (\<lambda>d. d\<lparr>acctIdIdx := (acctIdIdx d)(account \<mapsto> nm)\<rparr>)"

definition putAccountNameIndex :: "store \<Rightarrow> u32 \<Rightarrow> string \<Rightarrow> ErrorCode + store" where
  "putAccountNameIndex ns account nm =
     dbWrite ns (\<lambda>d. d\<lparr>acctNameIdx := (acctNameIdx d)(nm \<mapsto> account)\<rparr>)"

definition putAccountInfo :: "store \<Rightarrow> u32 \<Rightarrow> dbBIP0044AccountRow \<Rightarrow> ErrorCode + store" where
  "putAccountInfo ns account row =
     (case putAccountRow ns account row of
        Inl e \<Rightarrow> Inl e
      | Inr ns1 \<Rightarrow>
          (case putAccountIDIndex ns1 account (name row) of
             Inl e \<Rightarrow> Inl e
           | Inr ns2 \<Rightarrow> putAccountNameIndex ns2 account (name row)))"

definition putLastAccount :: "store \<Rightarrow> u32 \<Rightarrow> ErrorCode + store" where
  "putLastAccount ns account = dbWrite ns (\<lambda>d. d\<lparr>lastAccount := Some account\<rparr>)"

definition putAddress :: "store \<Rightarrow> bytes \<Rightarrow> dbAddressRow \<Rightarrow> u32 \<Rightarrow> ErrorCode + store" where
  "putAddress ns addressID row account =
     (case dbWrite ns (\<lambda>d. d\<lparr>addrBucket := (addrBucket d)(addressID \<mapsto> row)\<rparr>) of
        Inl e \<Rightarrow> Inl e
      | Inr ns1 \<Rightarrow> dbWrite ns1 (\<lambda>d. d\<lparr>addrAcctIdx := (addrAcctIdx d)(addressID \<mapsto> account)\<rparr>))"

definition putChainedAddress :: "store \<Rightarrow> bytes \<Rightarrow> u32 \<Rightarrow> u32 \<Rightarrow> u32 \<Rightarrow> ErrorCode + store" where
  "putChainedAddress ns addressID account branch index =
     putAddress ns addressID (dbChainAddressRow account branch index) account"


definition putScriptAddress :: "store \<Rightarrow> bytes \<Rightarrow> u32 \<Rightarrow> bytes \<Rightarrow> bytes \<Rightarrow> ErrorCode + store" where
  "putScriptAddress ns addressID account encryptedHash encryptedScript =
     putAddress ns addressID (dbScriptAddressRow account encryptedHash encryptedScript) account"

definition dropAddrPrivate :: "dbAddressRow \<Rightarrow> dbAddressRow" where
  "dropAddrPrivate row =
     (case row of
        dbChainAddressRow a b i \<Rightarrow> dbChainAddressRow a b i
      | dbImportedAddressRow a pub priv \<Rightarrow> dbImportedAddressRow a pub []
      | dbScriptAddressRow a h script \<Rightarrow> dbScriptAddressRow a h [])"

definition addrPrivateField :: "dbAddressRow \<Rightarrow> bytes" where
  "addrPrivateField row =
     (case row of
        dbChainAddressRow a b i \<Rightarrow> []
      | dbImportedAddressRow a pub priv \<Rightarrow> priv
      | dbScriptAddressRow a h script \<Rightarrow> script)"



definition orElse :: "'a option \<Rightarrow> 'a option \<Rightarrow> 'a option" where
  "orElse new old = (case new of None \<Rightarrow> old | Some v \<Rightarrow> Some v)"

definition putCryptoKeys ::
  "store \<Rightarrow> bytes option \<Rightarrow> bytes option \<Rightarrow> bytes option \<Rightarrow> ErrorCode + store" where
  "putCryptoKeys ns pubKeyEncrypted' privKeyEncrypted' scriptKeyEncrypted' =
     dbWrite ns (\<lambda>d. d\<lparr>cryptoKeyPubEnc := orElse pubKeyEncrypted' (cryptoKeyPubEnc d),
                        cryptoKeyPrivEnc := orElse privKeyEncrypted' (cryptoKeyPrivEnc d),
                        cryptoKeyScriptEnc := orElse scriptKeyEncrypted' (cryptoKeyScriptEnc d)\<rparr>)"

definition putMasterKeyParams :: "store \<Rightarrow> bytes option \<Rightarrow> bytes option \<Rightarrow> ErrorCode + store" where
  "putMasterKeyParams ns pubParams privParams =
     dbWrite ns (\<lambda>d. d\<lparr>masterKeyPubParams := orElse pubParams (masterKeyPubParams d),
                        masterKeyPrivParams := orElse privParams (masterKeyPrivParams d)\<rparr>)"

definition putCoinTypeKeys :: "store \<Rightarrow> bytes \<Rightarrow> bytes \<Rightarrow> ErrorCode + store" where
  "putCoinTypeKeys ns pubEnc privEnc =
     dbWrite ns (\<lambda>d. d\<lparr>coinTypePubEnc := Some pubEnc, coinTypePrivEnc := Some privEnc\<rparr>)"

definition putNextToUseAddrPoolIdx :: "store \<Rightarrow> bool \<Rightarrow> u32 \<Rightarrow> u32 \<Rightarrow> ErrorCode + store" where
  "putNextToUseAddrPoolIdx ns isInternal account idx =
     dbWrite ns (\<lambda>d. d\<lparr>nextToUsePool := (nextToUsePool d)((isInternal, account) \<mapsto> idx)\<rparr>)"

definition managerExists :: "store \<Rightarrow> bool" where
  "managerExists ns = nsCreated ns"

definition createManagerNS :: "store \<Rightarrow> ErrorCode + store" where
  "createManagerNS ns =
     dbWrite ns (\<lambda>d. d\<lparr>nsCreated := True, lastAccount := Some DefaultAccountNum\<rparr>)"

definition maybeConvertDbError :: "ErrorCode \<Rightarrow> ErrorCode" where
  "maybeConvertDbError e = e"




text \<open>Invariant 6 of the data model: while the manager is locked, no private-tier buffer it
  points to holds anything but zeroes, and (as the comment on \<^verbatim>\<open>accountInfo\<close> says) the
  account private key pointers are \<^verbatim>\<open>nil\<close>.\<close>

definition lockedHygiene :: "Manager \<Rightarrow> bool" where
  "lockedHygiene m =
     (locked m \<longrightarrow>
        (\<forall>r \<in> set (privRefs m). zeroed (heap m) r) \<and>
        (\<forall>na \<in> set (acctInfo m). acctKeyPriv (snd na) = None))"

subsection \<open>A concrete environment and concrete states\<close>

text \<open>
  A small instance of the libraries, on which the operations can be run: a passphrase
  key whose parameters are the passphrase itself, an encryption that prefixes the key, and
  extended keys whose first byte is \<open>2\<close> when public and \<open>3\<close> when private and whose child
  appends the child number. A public key has no hardened child, and its child \<open>3\<close> is an
  invalid child.
\<close>

definition exIsPublic :: "bytes \<Rightarrow> bool" where
  "exIsPublic k = (case k of [] \<Rightarrow> False | b # _ \<Rightarrow> b = 2)"

definition exDecrypt :: "bytes \<Rightarrow> bytes \<Rightarrow> bytes option" where
  "exDecrypt k c = (if take (length k) c = k then Some (drop (length k) c) else None)"

definition exChild :: "bytes \<Rightarrow> u32 \<Rightarrow> ChildResult" where
  "exChild k i =
     (if HardenedKeyStart \<le> i
      then (if exIsPublic k then ChildFailed else ChildKey (k @ [of_nat (unat i)]))
      else if i = 3 \<and> exIsPublic k then ErrInvalidChild
      else if unat i < 256 then ChildKey (k @ [of_nat (unat i)])
      else ChildKey (k @ 0 # replicate (unat i) 1))"

definition exEnv :: env where
  "exEnv =
     \<lparr>sha512Sum = rev,
      skDerive = (\<lambda>params pw.
         (if pw = params then DeriveOk else ErrInvalidPassword, Some (pw @ [1]))),
      skNew = (\<lambda>pw opts. Some (pw, pw @ [1])),
      ckNew = (\<lambda>i. Some [of_nat i + 11]),
      randRead = Some [7],
      cEncrypt = (\<lambda>k p. Some (k @ p)),
      cDecrypt = exDecrypt,
      hdNewMaster = (\<lambda>seed. Some (3 # seed)),
      hdNewKeyFromString = ChildKey,
      hdChild = exChild,
      hdNeuter = (\<lambda>k. Some (2 # tl k)),
      hdString = Some,
      hdIsForNet = (\<lambda>k. True),
      hdAddress = (\<lambda>k. k),
      hdECPrivKey = Some,
      privKeyFromBytes = (\<lambda>b. b),
      hash160 = (\<lambda>b. b)\<rparr>"

definition exPass :: bytes where
  "exPass = [112, 119]"

text \<open>
  An unlocked manager with the default account cached, one returned private key and one
  returned script. Cell 1 is the master private key, cells 3 and 4 the crypto private and
  script keys, cell 8 the account private key, cells 10 and 11 the returned secrets.
\<close>

definition exHeap :: memory where
  "exHeap =
     [[9], [112, 119, 1], [11], [12], [13], [112, 119, 1, 12], [112, 119, 1, 13],
      [12, 3, 7, 0], [3, 7, 0], [2, 7, 0], [3, 7, 0, 0, 5], [99, 98]]"

definition exAcct :: accountInfo where
  "exAcct = \<lparr>acctName = ''default'', acctKeyEncrypted = Some 7, acctKeyPriv = Some 8,
             acctKeyPub = Some 9\<rparr>"

definition exMgr :: Manager where
  "exMgr =
     \<lparr>returnedPrivKeys = Some [([2, 7, 0, 0, 5], 10)],
      returnedScripts = Some [([77], 11)],
      watchingOnly = False, locked = False, closed = False,
      acctInfo = [(0, exAcct)],
      masterKeyPub = \<lparr>Key = Some 0, Parameters = [112]\<rparr>,
      masterKeyPriv = Some \<lparr>Key = Some 1, Parameters = [112, 119]\<rparr>,
      cryptoKeyPub = 2,
      cryptoKeyPrivEncrypted = Some 5,
      cryptoKeyPriv = Some 3,
      cryptoKeyScriptEncrypted = Some 6,
      cryptoKeyScript = Some 4,
      privPassphraseSalt = [7],
      hashedPrivPassphrase = [119, 112, 7],
      heap = exHeap\<rparr>"

definition exLockedHeap :: memory where
  "exLockedHeap =
     [[9], [0, 0, 0], [11], [0], [0], [112, 119, 1, 12], [112, 119, 1, 13],
      [12, 3, 7, 0], [0, 0, 0], [2, 7, 0], [0, 0, 0, 0, 0], [0, 0]]"

definition exLocked :: Manager where
  "exLocked =
     exMgr\<lparr>acctInfo := [(0, exAcct\<lparr>acctKeyPriv := None\<rparr>)],
           returnedPrivKeys := None, returnedScripts := None,
           heap := exLockedHeap, hashedPrivPassphrase := replicate 64 0, locked := True\<rparr>"

text \<open>A store holding one account row, with last used index 5 and last returned index 7
  on the external branch and nothing used or returned on the internal branch.\<close>

definition exRow :: dbBIP0044AccountRow where
  "exRow = bip0044AccountInfo [11, 2, 7, 0] [12, 3, 7, 0] 0 0 5 sentinel 7 sentinel ''default''"

definition emptyStore :: store where
  "emptyStore =
     \<lparr>nsCreated = False, masterKeyPubParams = None, masterKeyPrivParams = None,
      cryptoKeyPubEnc = None, cryptoKeyPrivEnc = None, cryptoKeyScriptEnc = None,
      coinTypePubEnc = None, coinTypePrivEnc = None, watchingOnlyFlag = None,
      acctBucket = (\<lambda>a. None), acctNameIdx = (\<lambda>n. None), acctIdIdx = (\<lambda>a. None),
      addrBucket = (\<lambda>h. None), addrAcctIdx = (\<lambda>h. None), nextToUsePool = (\<lambda>k. None),
      lastAccount = None, writeBudget = None\<rparr>"

definition exStore :: store where
  "exStore = emptyStore\<lparr>acctBucket := (\<lambda>a. if a = 0 then Some exRow else None)\<rparr>"

text \<open>
  The store of a wallet made with the environment above: master key parameters, wrapped
  crypto keys and coin-type keys, the row of the default account, and one imported key
  address. The second store and the manager after it are what the conversion of the locked
  manager to watching-only leaves.
\<close>

definition exFullStore :: store where
  "exFullStore =
     exStore\<lparr>nsCreated := True,
             masterKeyPubParams := Some [112], masterKeyPrivParams := Some [112, 119],
             cryptoKeyPubEnc := Some [112, 1, 11],
             cryptoKeyPrivEnc := Some [112, 119, 1, 12],
             cryptoKeyScriptEnc := Some [112, 119, 1, 13],
             coinTypePubEnc := Some [11, 2, 7], coinTypePrivEnc := Some [12, 3, 7],
             watchingOnlyFlag := Some False,
             acctNameIdx := (\<lambda>n. if n = ''default'' then Some 0 else None),
             acctIdIdx := (\<lambda>a. if a = 0 then Some ''default'' else None),
             addrBucket := (\<lambda>h. if h = [2, 9]
                                  then Some (dbImportedAddressRow ImportedAddrAccount
                                               [11, 2, 9] [12, 3, 9])
                                  else None),
             addrAcctIdx := (\<lambda>h. if h = [2, 9] then Some ImportedAddrAccount else None),
             lastAccount := Some 0\<rparr>"

definition exWatchStore :: store where
  "exWatchStore =
     exFullStore\<lparr>masterKeyPrivParams := None, cryptoKeyPrivEnc := None,
                 cryptoKeyScriptEnc := None, coinTypePrivEnc := None,
                 acctBucket := (\<lambda>a. map_option (\<lambda>row. row\<lparr>privKeyEncrypted := []\<rparr>)
                                      (acctBucket exFullStore a)),
                 addrBucket := (\<lambda>h. map_option dropAddrPrivate (addrBucket exFullStore h)),
                 watchingOnlyFlag := Some True\<rparr>"

definition exWatchingHeap :: memory where
  "exWatchingHeap =
     [[9], [0, 0, 0], [11], [0], [0], [0, 0, 0, 0], [0, 0, 0, 0],
      [0, 0, 0, 0], [0, 0, 0], [2, 7, 0], [0, 0, 0, 0, 0], [0, 0]]"

definition exWatching :: Manager where
  "exWatching =
     exLocked\<lparr>acctInfo := [(0, exAcct\<lparr>acctKeyPriv := None, acctKeyEncrypted := None\<rparr>)],
              cryptoKeyScriptEncrypted := None, cryptoKeyScript := None,
              cryptoKeyPrivEncrypted := None, cryptoKeyPriv := None,
              masterKeyPriv := None, watchingOnly := True, heap := exWatchingHeap\<rparr>"

text \<open>Closing a manager and then unlocking it, as one call sequence.\<close>

definition closeThenUnlock :: "env \<Rightarrow> Manager \<Rightarrow> bytes \<Rightarrow> (ErrorCode option \<times> Manager) option" where
  "closeThenUnlock e m passphrase =
     (case Close m of None \<Rightarrow> None | Some (err, m') \<Rightarrow> Unlock e m' passphrase)"

text \<open>The manager \<open>exMgr\<close> after \<^verbatim>\<open>Close\<close> followed by \<^verbatim>\<open>Unlock\<close> with its passphrase.\<close>

definition exReopened :: Manager where
  "exReopened =
     exMgr\<lparr>returnedPrivKeys := None, returnedScripts := None, closed := True,
           acctInfo := [(0, exAcct\<lparr>acctKeyPriv := Some 12, acctKeyPub := None\<rparr>)],
           heap := [[0], [112, 119, 1], [0], [12], [0], [112, 119, 1, 12], [112, 119, 1, 13],
                    [12, 3, 7, 0], [0, 0, 0], [0, 0, 0], [0, 0, 0, 0, 0], [0, 0], [3, 7, 0]]\<rparr>"

text \<open>Changing a passphrase. The copy of the master key that checks the old passphrase and
  the new master key are local values until the new key is stored in the manager; the two
  branches of the source on \<^verbatim>\<open>private\<close> are \<open>changePrivate\<close> and \<open>changePublic\<close>.\<close>

definition masterParams :: "Manager \<Rightarrow> bool \<Rightarrow> bytes option" where
  "masterParams m private =
     (if private then map_option Parameters (masterKeyPriv m)
      else Some (Parameters (masterKeyPub m)))"

definition changePrivate ::
  "env \<Rightarrow> store \<Rightarrow> Manager \<Rightarrow> bytes \<Rightarrow> bytes \<Rightarrow> bytes \<Rightarrow> bytes \<Rightarrow>
     (ErrorCode option \<times> store \<times> Manager) option" where
  "changePrivate e ns m newPassphrase secretKey newKeyParams newMasterKey =
     (case randRead e of
        None \<Rightarrow> Some (Some ErrCrypto, ns, m)
      | Some passphraseSalt \<Rightarrow>
     (case cDecrypt e secretKey (slice (heap m) (cryptoKeyPrivEncrypted m)) of
        None \<Rightarrow> Some (Some ErrCrypto, ns, m)
      | Some decPriv \<Rightarrow>
     (case cEncrypt e newMasterKey decPriv of
        None \<Rightarrow> Some (Some ErrCrypto, ns, m)
      | Some encPriv \<Rightarrow>
     (case cDecrypt e secretKey (slice (heap m) (cryptoKeyScriptEncrypted m)) of
        None \<Rightarrow> Some (Some ErrCrypto, ns, m)
      | Some decScript \<Rightarrow>
     (case cEncrypt e newMasterKey decScript of
        None \<Rightarrow> Some (Some ErrCrypto, ns, m)
      | Some encScript \<Rightarrow>
     (case putCryptoKeys ns None (Some encPriv) (Some encScript) of
        Inl err \<Rightarrow> Some (Some (maybeConvertDbError err), ns, m)
      | Inr ns1 \<Rightarrow>
     (case putMasterKeyParams ns1 None (Some newKeyParams) of
        Inl err \<Rightarrow> Some (Some (maybeConvertDbError err), ns1, m)
      | Inr ns2 \<Rightarrow>
     (case masterKeyPriv m of
        None \<Rightarrow> None
      | Some mk \<Rightarrow>
     (case Key mk of
        None \<Rightarrow> None
      | Some k \<Rightarrow>
          Some (None, ns2,
            m\<lparr>masterKeyPriv := Some \<lparr>Key = Some (length (heap m)), Parameters = newKeyParams\<rparr>,
              privPassphraseSalt := passphraseSalt,
              hashedPrivPassphrase :=
                (if locked m then replicate 64 0
                 else sha512Sum e (passphraseSalt @ newPassphrase)),
              heap := zeroAt (copyIntoOpt (copyIntoOpt (heap m) (cryptoKeyPrivEncrypted m) encPriv)
                                (cryptoKeyScriptEncrypted m) encScript) k @
                      [if locked m then replicate (length newMasterKey) 0
                       else newMasterKey]\<rparr>))))))))))"

definition changePublic ::
  "env \<Rightarrow> store \<Rightarrow> Manager \<Rightarrow> bytes \<Rightarrow> bytes \<Rightarrow> (ErrorCode option \<times> store \<times> Manager) option" where
  "changePublic e ns m newKeyParams newMasterKey =
     (case cEncrypt e newMasterKey (rd (heap m) (cryptoKeyPub m)) of
        None \<Rightarrow> Some (Some ErrCrypto, ns, m)
      | Some encryptedPub \<Rightarrow>
     (case putCryptoKeys ns (Some encryptedPub) None None of
        Inl err \<Rightarrow> Some (Some (maybeConvertDbError err), ns, m)
      | Inr ns1 \<Rightarrow>
     (case putMasterKeyParams ns1 (Some newKeyParams) None of
        Inl err \<Rightarrow> Some (Some (maybeConvertDbError err), ns1, m)
      | Inr ns2 \<Rightarrow>
     (case Key (masterKeyPub m) of
        None \<Rightarrow> None
      | Some k \<Rightarrow>
          Some (None, ns2,
            m\<lparr>masterKeyPub := \<lparr>Key = Some (length (heap m)), Parameters = newKeyParams\<rparr>,
              heap := zeroAt (heap m) k @ [newMasterKey]\<rparr>)))))"

definition ChangePassphrase ::
  "env \<Rightarrow> store \<Rightarrow> Manager \<Rightarrow> bytes \<Rightarrow> bytes \<Rightarrow> bool \<Rightarrow>
     (ErrorCode option \<times> store \<times> Manager) option" where
  "ChangePassphrase e ns m oldPassphrase newPassphrase private =
     (if private \<and> watchingOnly m then Some (Some ErrWatchingOnly, ns, m)
      else
        (case masterParams m private of
           None \<Rightarrow> None
         | Some params \<Rightarrow>
             if fst (skDerive e params oldPassphrase) = ErrInvalidPassword
             then Some (Some ErrWrongPassphrase, ns, m)
             else if fst (skDerive e params oldPassphrase) \<noteq> DeriveOk
             then Some (Some ErrCrypto, ns, m)
             else
               (case skNew e newPassphrase defaultScryptOptions of
                  None \<Rightarrow> Some (Some ErrCrypto, ns, m)
                | Some (newKeyParams, newMasterKey) \<Rightarrow>
                    if private
                    then changePrivate e ns m newPassphrase
                           (case snd (skDerive e params oldPassphrase) of
                              None \<Rightarrow> replicate 32 0 | Some b \<Rightarrow> b)
                           newKeyParams newMasterKey
                    else changePublic e ns m newKeyParams newMasterKey)))"

text \<open>The pointer to the key buffer of the master key of a tier.\<close>

definition masterKeyRef :: "Manager \<Rightarrow> bool \<Rightarrow> ref option" where
  "masterKeyRef m private =
     (if private then (case masterKeyPriv m of None \<Rightarrow> None | Some mk \<Rightarrow> Key mk)
      else Key (masterKeyPub m))"

definition storedMasterParams :: "store \<Rightarrow> bool \<Rightarrow> bytes option" where
  "storedMasterParams ns private =
     (if private then masterKeyPrivParams ns else masterKeyPubParams ns)"

text \<open>Creating an account. When a helper of the bucket layer fails, the store returned with
  the error is the store as that helper found it.\<close>

definition ValidateAccountName :: "string \<Rightarrow> ErrorCode option" where
  "ValidateAccountName nm =
     (if nm = [] then Some ErrInvalidAccount
      else if isReservedAccountName nm then Some ErrInvalidAccount
      else None)"

definition deriveAccountKey :: "env \<Rightarrow> bytes \<Rightarrow> u32 \<Rightarrow> ErrorCode + ChildResult" where
  "deriveAccountKey e coinTypeKey account =
     (if account > MaxAccountNum then Inl ErrAccountNumTooHigh
      else Inr (hdChild e coinTypeKey (account + HardenedKeyStart)))"

definition newAccountKeys ::
  "env \<Rightarrow> store \<Rightarrow> Manager \<Rightarrow> ref \<Rightarrow> string \<Rightarrow> u32 \<Rightarrow> bytes \<Rightarrow> ((ErrorCode + u32) \<times> store) option" where
  "newAccountKeys e ns m cp nm account acctKeyPriv' =
     (case hdNeuter e acctKeyPriv' of
        None \<Rightarrow> Some (Inl ErrKeyChain, ns)
      | Some acctKeyPub' \<Rightarrow>
     (case hdString e acctKeyPub' of
        None \<Rightarrow> Some (Inl ErrCrypto, ns)
      | Some apes \<Rightarrow>
     (case cEncrypt e (rd (heap m) (cryptoKeyPub m)) apes of
        None \<Rightarrow> Some (Inl ErrCrypto, ns)
      | Some acctPubEnc \<Rightarrow>
     (case hdString e acctKeyPriv' of
        None \<Rightarrow> Some (Inl ErrCrypto, ns)
      | Some apes' \<Rightarrow>
     (case cEncrypt e (rd (heap m) cp) apes' of
        None \<Rightarrow> Some (Inl ErrCrypto, ns)
      | Some acctPrivEnc \<Rightarrow>
     (case putAccountInfo ns account
             (bip0044AccountInfo acctPubEnc acctPrivEnc 0 0 (NOT 0) (NOT 0) 0 0 nm) of
        Inl err \<Rightarrow> Some (Inl err, ns)
      | Inr ns1 \<Rightarrow>
     (case putLastAccount ns1 account of
        Inl err \<Rightarrow> Some (Inl err, ns1)
      | Inr ns2 \<Rightarrow> Some (Inr account, ns2))))))))"

definition NewAccount :: "env \<Rightarrow> store \<Rightarrow> Manager \<Rightarrow> string \<Rightarrow> ((ErrorCode + u32) \<times> store) option" where
  "NewAccount e ns m nm =
     (if watchingOnly m then Some (Inl ErrWatchingOnly, ns)
      else if locked m then Some (Inl ErrLocked, ns)
      else
     (case ValidateAccountName nm of
        Some err \<Rightarrow> Some (Inl err, ns)
      | None \<Rightarrow>
     (case fetchAccountByName ns nm of
        Inr found \<Rightarrow> Some (Inl ErrDuplicateAccount, ns)
      | Inl notFound \<Rightarrow>
     (case fetchLastAccount ns of
        Inl err \<Rightarrow> Some (Inl err, ns)
      | Inr lastAcct \<Rightarrow>
     (case fetchCoinTypeKeys ns of
        Inl err \<Rightarrow> Some (Inl err, ns)
      | Inr coinTypeKeys \<Rightarrow>
     (case cryptoKeyPriv m of
        None \<Rightarrow> None
      | Some cp \<Rightarrow>
     (case cDecrypt e (rd (heap m) cp) (snd coinTypeKeys) of
        None \<Rightarrow> Some (Inl ErrLocked, ns)
      | Some serializedKeyPriv \<Rightarrow>
     (case hdNewKeyFromString e serializedKeyPriv of
        ChildKey coinTypeKeyPriv \<Rightarrow>
          (case deriveAccountKey e coinTypeKeyPriv (lastAcct + 1) of
             Inr (ChildKey acctKeyPriv') \<Rightarrow> newAccountKeys e ns m cp nm (lastAcct + 1) acctKeyPriv'
           | _ \<Rightarrow> Some (Inl ErrKeyChain, ns))
      | _ \<Rightarrow> Some (Inl ErrKeyChain, ns)))))))))"

text \<open>Loading an account into the cache, deriving keys, and the getters of secrets. A key
  handed to the caller is the pointer that the map of returned secrets keeps.\<close>

definition loadAccountInfo ::
  "env \<Rightarrow> store \<Rightarrow> Manager \<Rightarrow> u32 \<Rightarrow> ((ErrorCode + accountInfo) \<times> Manager) option" where
  "loadAccountInfo e ns m account =
     (case map_of (acctInfo m) account of
        Some a \<Rightarrow> Some (Inr a, m)
      | None \<Rightarrow>
     (case fetchAccountInfo ns account of
        Inl err \<Rightarrow> Some (Inl (maybeConvertDbError err), m)
      | Inr row \<Rightarrow>
     (case cDecrypt e (rd (heap m) (cryptoKeyPub m)) (pubKeyEncrypted row) of
        None \<Rightarrow> Some (Inl ErrCrypto, m)
      | Some serializedKeyPub \<Rightarrow>
     (case hdNewKeyFromString e serializedKeyPub of
        ChildKey acctKeyPub' \<Rightarrow>
          if \<not> locked m then
            (case cryptoKeyPriv m of
               None \<Rightarrow> None
             | Some cp \<Rightarrow>
            (case cDecrypt e (rd (heap m) cp) (privKeyEncrypted row) of
               None \<Rightarrow> Some (Inl ErrCrypto, m)
             | Some decrypted \<Rightarrow>
            (case hdNewKeyFromString e decrypted of
               ChildKey acctKeyPriv' \<Rightarrow>
                 Some (Inr \<lparr>acctName = name row, acctKeyEncrypted = Some (length (heap m)),
                            acctKeyPriv = Some (length (heap m) + 2),
                            acctKeyPub = Some (length (heap m) + 1)\<rparr>,
                       m\<lparr>acctInfo := acctInfo m @
                            [(account,
                              \<lparr>acctName = name row, acctKeyEncrypted = Some (length (heap m)),
                               acctKeyPriv = Some (length (heap m) + 2),
                               acctKeyPub = Some (length (heap m) + 1)\<rparr>)],
                         heap := heap m @ [privKeyEncrypted row, acctKeyPub', acctKeyPriv']\<rparr>)
             | _ \<Rightarrow> Some (Inl ErrKeyChain, m))))
          else
            Some (Inr \<lparr>acctName = name row, acctKeyEncrypted = Some (length (heap m)),
                       acctKeyPriv = None, acctKeyPub = Some (length (heap m) + 1)\<rparr>,
                  m\<lparr>acctInfo := acctInfo m @
                       [(account,
                         \<lparr>acctName = name row, acctKeyEncrypted = Some (length (heap m)),
                          acctKeyPriv = None, acctKeyPub = Some (length (heap m) + 1)\<rparr>)],
                    heap := heap m @ [privKeyEncrypted row, acctKeyPub']\<rparr>)
      | _ \<Rightarrow> Some (Inl ErrKeyChain, m)))))"

definition deriveKey ::
  "env \<Rightarrow> memory \<Rightarrow> accountInfo \<Rightarrow> u32 \<Rightarrow> u32 \<Rightarrow> bool \<Rightarrow> (ErrorCode + bytes) option" where
  "deriveKey e h a branch index private =
     (case (if private then acctKeyPriv a else acctKeyPub a) of
        None \<Rightarrow> None
      | Some acctKey \<Rightarrow>
          (case hdChild e (rd h acctKey) branch of
             ChildKey branchKey \<Rightarrow>
               (case hdChild e branchKey index of
                  ChildKey addressKey \<Rightarrow> Some (Inr addressKey)
                | _ \<Rightarrow> Some (Inl ErrKeyChain))
           | _ \<Rightarrow> Some (Inl ErrKeyChain)))"

definition lookupSecret :: "(bytes \<times> ref) list option \<Rightarrow> bytes \<Rightarrow> ref option" where
  "lookupSecret mp addr = (case mp of None \<Rightarrow> None | Some al \<Rightarrow> map_of al addr)"

definition insertSecret :: "(bytes \<times> ref) list option \<Rightarrow> bytes \<Rightarrow> ref \<Rightarrow> (bytes \<times> ref) list option" where
  "insertSecret mp addr r =
     Some ((addr, r) # filter (\<lambda>kv. fst kv \<noteq> addr) (case mp of None \<Rightarrow> [] | Some al \<Rightarrow> al))"

definition returnPrivKey :: "Manager \<Rightarrow> bytes \<Rightarrow> bytes \<Rightarrow> (ErrorCode + ref) \<times> Manager" where
  "returnPrivKey m addr key =
     (Inr (length (heap m)),
      m\<lparr>returnedPrivKeys := insertSecret (returnedPrivKeys m) addr (length (heap m)),
        heap := heap m @ [key]\<rparr>)"

definition returnScript :: "Manager \<Rightarrow> bytes \<Rightarrow> bytes \<Rightarrow> (ErrorCode + ref) \<times> Manager" where
  "returnScript m addr script =
     (Inr (length (heap m)),
      m\<lparr>returnedScripts := insertSecret (returnedScripts m) addr (length (heap m)),
        heap := heap m @ [script]\<rparr>)"

definition privateKeyOfRow ::
  "env \<Rightarrow> store \<Rightarrow> Manager \<Rightarrow> bytes \<Rightarrow> dbAddressRow \<Rightarrow> ((ErrorCode + ref) \<times> Manager) option" where
  "privateKeyOfRow e ns m addr row =
     (case row of
        dbChainAddressRow account branch index \<Rightarrow>
          (case loadAccountInfo e ns m account of
             None \<Rightarrow> None
           | Some (Inl err, m1) \<Rightarrow> Some (Inl err, m1)
           | Some (Inr a, m1) \<Rightarrow>
               (case deriveKey e (heap m1) a branch index True of
                  None \<Rightarrow> None
                | Some (Inl err) \<Rightarrow> Some (Inl err, m1)
                | Some (Inr xpriv) \<Rightarrow>
                    (case hdECPrivKey e xpriv of
                       None \<Rightarrow> Some (Inl ErrKeyChain, m1)
                     | Some key \<Rightarrow> Some (returnPrivKey m1 addr key))))
      | dbImportedAddressRow account encryptedPubKey encryptedPrivKey \<Rightarrow>
          (case cryptoKeyPriv m of
             None \<Rightarrow> None
           | Some cp \<Rightarrow>
               (case cDecrypt e (rd (heap m) cp) encryptedPrivKey of
                  None \<Rightarrow> Some (Inl ErrCrypto, m)
                | Some privKeyBytes \<Rightarrow>
                    Some (returnPrivKey m addr (privKeyFromBytes e privKeyBytes))))
      | dbScriptAddressRow account encryptedHash encryptedScript \<Rightarrow> Some (Inl ErrInput, m))"

definition PrivateKey ::
  "env \<Rightarrow> store \<Rightarrow> Manager \<Rightarrow> bytes \<Rightarrow> ((ErrorCode + ref) \<times> Manager) option" where
  "PrivateKey e ns m addr =
     (if watchingOnly m then Some (Inl ErrWatchingOnly, m)
      else if locked m then Some (Inl ErrLocked, m)
      else
        (case lookupSecret (returnedPrivKeys m) addr of
           Some key \<Rightarrow> Some (Inr key, m)
         | None \<Rightarrow>
             (case fetchAddress ns addr of
                Inl err \<Rightarrow> Some (Inl err, m)
              | Inr row \<Rightarrow> privateKeyOfRow e ns m addr row)))"

definition redeemScriptOfRow ::
  "env \<Rightarrow> Manager \<Rightarrow> bytes \<Rightarrow> dbAddressRow \<Rightarrow> ((ErrorCode + ref) \<times> Manager) option" where
  "redeemScriptOfRow e m addr row =
     (case row of
        dbScriptAddressRow account encryptedHash encryptedScript \<Rightarrow>
          (case cryptoKeyScript m of
             None \<Rightarrow> None
           | Some cs \<Rightarrow>
               (case cDecrypt e (rd (heap m) cs) encryptedScript of
                  None \<Rightarrow> Some (Inl ErrCrypto, m)
                | Some script \<Rightarrow> Some (returnScript m addr script)))
      | dbChainAddressRow account branch index \<Rightarrow> Some (Inl ErrInput, m)
      | dbImportedAddressRow account encryptedPubKey encryptedPrivKey \<Rightarrow> Some (Inl ErrInput, m))"

definition RedeemScript ::
  "env \<Rightarrow> store \<Rightarrow> Manager \<Rightarrow> bytes \<Rightarrow> ((ErrorCode + ref) \<times> Manager) option" where
  "RedeemScript e ns m addr =
     (if watchingOnly m then Some (Inl ErrWatchingOnly, m)
      else if locked m then Some (Inl ErrLocked, m)
      else
        (case lookupSecret (returnedScripts m) addr of
           Some script \<Rightarrow> Some (Inr script, m)
         | None \<Rightarrow>
             (case fetchAddress ns addr of
                Inl err \<Rightarrow> Some (Inl err, m)
              | Inr row \<Rightarrow> redeemScriptOfRow e m addr row)))"

text \<open>Synchronising an account branch to an address index. The loop of the source has no
  bound of its own (\<^verbatim>\<open>for child := syncToIndex; ; child--\<close>, where \<^verbatim>\<open>continue\<close> skips the
  test for \<open>child = 0\<close> and the decrement wraps), so it is a partial function: \<open>None\<close> is a
  run that does not return.\<close>

partial_function (option) syncLoop ::
  "env \<Rightarrow> bytes \<Rightarrow> u32 \<Rightarrow> u32 \<Rightarrow> store \<Rightarrow> u32 \<Rightarrow> (ErrorCode option \<times> store) option" where
  "syncLoop e xpubBranch account branch ns child =
     (case hdChild e xpubBranch child of
        ErrInvalidChild \<Rightarrow> syncLoop e xpubBranch account branch ns (child - 1)
      | ChildFailed \<Rightarrow> Some (Some ErrKeyChain, ns)
      | ChildKey xpubChild \<Rightarrow>
          (case fetchAddress ns (hdAddress e xpubChild) of
             Inr row \<Rightarrow> Some (None, ns)
           | Inl notFound \<Rightarrow>
               (case putChainedAddress ns (hdAddress e xpubChild) account branch child of
                  Inl err \<Rightarrow> Some (Some err, ns)
                | Inr ns1 \<Rightarrow>
                    if child = 0 then Some (None, ns1)
                    else syncLoop e xpubBranch account branch ns1 (child - 1))))"

definition xprivBranchCheck :: "env \<Rightarrow> Manager \<Rightarrow> accountInfo \<Rightarrow> u32 \<Rightarrow> ErrorCode option option" where
  "xprivBranchCheck e m a branch =
     (if locked m then Some None
      else
        (case acctKeyPriv a of
           None \<Rightarrow> None
         | Some acctKey \<Rightarrow>
             (case hdChild e (rd (heap m) acctKey) branch of
                ChildKey xprivBranch \<Rightarrow> Some None
              | _ \<Rightarrow> Some (Some ErrKeyChain))))"

definition syncAccountToAddrIndex ::
  "env \<Rightarrow> store \<Rightarrow> Manager \<Rightarrow> u32 \<Rightarrow> u32 \<Rightarrow> u32 \<Rightarrow> (ErrorCode option \<times> store \<times> Manager) option" where
  "syncAccountToAddrIndex e ns m account syncToIndex branch =
     (if account = ImportedAddrAccount then Some (Some ErrInvalidAccount, ns, m)
      else
     (case loadAccountInfo e ns m account of
        None \<Rightarrow> None
      | Some (Inl err, m1) \<Rightarrow> Some (Some err, ns, m1)
      | Some (Inr a, m1) \<Rightarrow>
          if branch \<noteq> ExternalBranch \<and> branch \<noteq> InternalBranch
          then Some (Some ErrBranch, ns, m1)
          else
     (case acctKeyPub a of
        None \<Rightarrow> None
      | Some acctKey \<Rightarrow>
     (case hdChild e (rd (heap m1) acctKey) branch of
        ChildKey xpubBranch \<Rightarrow>
          (case xprivBranchCheck e m1 a branch of
             None \<Rightarrow> None
           | Some (Some err) \<Rightarrow> Some (Some err, ns, m1)
           | Some None \<Rightarrow>
               if syncToIndex > MaxAddressesPerAccount
               then Some (Some ErrTooManyAddresses, ns, m1)
               else
                 (case syncLoop e xpubBranch account branch ns syncToIndex of
                    None \<Rightarrow> None
                  | Some (err, ns') \<Rightarrow> Some (err, ns', m1)))
      | _ \<Rightarrow> Some (Some ErrKeyChain, ns, m1)))))"

definition SyncAccountToAddrIndex ::
  "env \<Rightarrow> store \<Rightarrow> Manager \<Rightarrow> u32 \<Rightarrow> u32 \<Rightarrow> u32 \<Rightarrow> (ErrorCode option \<times> store \<times> Manager) option" where
  "SyncAccountToAddrIndex e ns m account syncToIndex branch =
     (if account > MaxAccountNum then Some (Some ErrAccountNumTooHigh, ns, m)
      else syncAccountToAddrIndex e ns m account syncToIndex branch)"











text \<open>A store with one more chained address row, as \<^verbatim>\<open>putChainedAddress\<close> leaves it when
  the write goes through.\<close>

definition withChainedRow :: "store \<Rightarrow> bytes \<Rightarrow> u32 \<Rightarrow> u32 \<Rightarrow> u32 \<Rightarrow> store" where
  "withChainedRow ns addressID account branch index =
     ns\<lparr>addrBucket := (addrBucket ns)(addressID \<mapsto> dbChainAddressRow account branch index),
        addrAcctIdx := (addrAcctIdx ns)(addressID \<mapsto> account)\<rparr>"





section \<open>Theorems\<close>

lemma maxUint32_ge_left: "a \<le> maxUint32 a b"
  by (auto simp: maxUint32_def)

lemma maxUint32_absorb: "a \<le> b \<Longrightarrow> maxUint32 a b = b"
  by (auto simp: maxUint32_def)


subsection \<open>Child index bookkeeping\<close>

lemma markUsed_lt_unchanged:
  assumes "child + 1 < lastUsedOf branch row + 1" "acctBucket ns account = Some row"
  shows "snd (MarkUsedChildIndex ns account branch child) = ns"
  using assms
  by (auto simp: MarkUsedChildIndex_def fetchAccountInfo_def Let_def lastUsedOf_def
       ExternalBranch_def InternalBranch_def)

lemma markReturned_lt_unchanged:
  assumes "child + 1 < lastReturnedOf branch row + 1" "acctBucket ns account = Some row"
  shows "snd (MarkReturnedChildIndex ns account branch child) = ns"
  using assms
  by (auto simp: MarkReturnedChildIndex_def fetchAccountInfo_def Let_def lastReturnedOf_def
       ExternalBranch_def InternalBranch_def)




lemma markReturned_covers:
  assumes "acctBucket ns account = Some row"
    and "returnedCoversUsed row"
    and "acctBucket (snd (MarkReturnedChildIndex ns account branch child)) account = Some row'"
  shows "returnedCoversUsed row'"
  using assms
  by (auto simp: MarkReturnedChildIndex_def fetchAccountInfo_def Let_def errOf_def putAccountRow_def
      dbWrite_def bip0044AccountInfo_def idxLe_def
      returnedCoversUsed_def maxUint32_def ExternalBranch_def InternalBranch_def
      split: option.splits nat.splits sum.splits if_splits)



subsection \<open>Memory\<close>

lemma length_writeAt [simp]: "length (writeAt h r b) = length h"
  by (simp add: writeAt_def)

lemma length_zeroAt [simp]: "length (zeroAt h r) = length h"
  by (simp add: zeroAt_def)

lemma rd_writeAt: "rd (writeAt h r b) r' = (if r' = r \<and> r < length h then b else rd h r')"
  by (auto simp: rd_def writeAt_def)

lemma zeroed_zeroAt_same [simp]: "zeroed (zeroAt h r) r"
  by (auto simp: zeroed_def zeroAt_def rd_writeAt) (simp add: rd_def)

lemma zeroed_zeroAt_keep: "zeroed h r' \<Longrightarrow> zeroed (zeroAt h r) r'"
  by (auto simp: zeroed_def zeroAt_def rd_writeAt)



lemma zeroed_foldl_zeroAt_keep: "zeroed h r \<Longrightarrow> zeroed (foldl zeroAt h rs) r"
  by (induction rs arbitrary: h) (auto simp: zeroed_zeroAt_keep)

lemma zeroed_foldl_zeroAt_mem: "r \<in> set rs \<Longrightarrow> zeroed (foldl zeroAt h rs) r"
  by (induction rs arbitrary: h) (auto simp: zeroed_foldl_zeroAt_keep)


lemma length_foldl_zeroAt [simp]: "length (foldl zeroAt h rs) = length h"
  by (induction rs arbitrary: h) auto

lemma zeroed_zeroOpt_keep: "zeroed h r \<Longrightarrow> zeroed (zeroOpt h p) r"
  by (auto simp: zeroOpt_def zeroed_zeroAt_keep split: option.splits)

lemma length_zeroOpt [simp]: "length (zeroOpt h p) = length h"
  by (simp add: zeroOpt_def split: option.splits)

lemma zeroed_foldl_zeroOpt_keep: "zeroed h r \<Longrightarrow> zeroed (foldl zeroOpt h ps) r"
  by (induction ps arbitrary: h) (auto simp: zeroed_zeroOpt_keep)

lemma zeroed_foldl_zeroOpt_mem: "Some r \<in> set ps \<Longrightarrow> zeroed (foldl zeroOpt h ps) r"
  by (induction ps arbitrary: h) (auto simp: zeroed_foldl_zeroOpt_keep zeroOpt_def)


lemma length_foldl_zeroOpt [simp]: "length (foldl zeroOpt h ps) = length h"
  by (induction ps arbitrary: h) auto

lemma optRefs_mem: "r \<in> set (optRefs p) \<longleftrightarrow> p = Some r"
  by (auto simp: optRefs_def split: option.splits)

lemma concat_optRefs_mem:
  "r \<in> set (concat (map (\<lambda>na. optRefs (f na)) ai)) \<longleftrightarrow> (\<exists>na \<in> set ai. f na = Some r)"
  by (induction ai) (auto simp: optRefs_mem)

lemma privRefs_mem:
  "r \<in> set (privRefs m) \<longleftrightarrow>
     (\<exists>na \<in> set (acctInfo m). acctKeyPriv (snd na) = Some r) \<or>
     r \<in> set (secretRefs (returnedPrivKeys m)) \<or> r \<in> set (secretRefs (returnedScripts m)) \<or>
     cryptoKeyScript m = Some r \<or> cryptoKeyPriv m = Some r \<or>
     (\<exists>mk. masterKeyPriv m = Some mk \<and> Key mk = Some r)"
  unfolding privRefs_def set_append concat_optRefs_mem Un_iff optRefs_mem
  by (cases "masterKeyPriv m") (auto simp: optRefs_mem)

lemma lock_zeroes_privRefs:
  assumes "lock m = Some m'" "r \<in> set (privRefs m)"
  shows "zeroed (heap m') r"
proof -
  from assms(1) obtain cs cp mk k where
    p: "cryptoKeyScript m = Some cs" "cryptoKeyPriv m = Some cp" "masterKeyPriv m = Some mk" "Key mk = Some k"
    and h: "heap m' = zeroAt (zeroAt (zeroAt (foldl zeroAt (foldl zeroAt (foldl zeroOpt (heap m) (map (\<lambda>na. acctKeyPriv (snd na)) (acctInfo m)))
       (secretRefs (returnedPrivKeys m))) (secretRefs (returnedScripts m))) cs) cp) k"
    by (auto simp: lock_def Let_def split: option.splits)
  from assms(2) p consider
      (a) "Some r \<in> set (map (\<lambda>na. acctKeyPriv (snd na)) (acctInfo m))"
    | (b) "r \<in> set (secretRefs (returnedPrivKeys m))"
    | (c) "r \<in> set (secretRefs (returnedScripts m))"
    | (d) "r = cs" | (e) "r = cp" | (f) "r = k"
    unfolding privRefs_mem by force
  then show ?thesis
  proof cases
    case a then show ?thesis unfolding h
      by (intro zeroed_zeroAt_keep zeroed_foldl_zeroAt_keep zeroed_foldl_zeroOpt_mem)
  next
    case b then show ?thesis unfolding h
      by (intro zeroed_zeroAt_keep zeroed_foldl_zeroAt_keep zeroed_foldl_zeroAt_mem)
  next
    case c then show ?thesis unfolding h
      by (intro zeroed_zeroAt_keep zeroed_foldl_zeroAt_mem)
  next
    case d then show ?thesis unfolding h by (simp add: zeroed_zeroAt_keep)
  next
    case e then show ?thesis unfolding h by (simp add: zeroed_zeroAt_keep)
  next
    case f then show ?thesis unfolding h by simp
  qed
qed



lemma lock_fields:
  assumes "lock m = Some m'"
  shows "locked m'" "returnedPrivKeys m' = None" "returnedScripts m' = None"
    "hashedPrivPassphrase m' = replicate 64 0"
    "acctInfo m' = map clearAcctKeyPriv (acctInfo m)"
    "cryptoKeyPub m' = cryptoKeyPub m" "cryptoKeyPriv m' = cryptoKeyPriv m"
    "cryptoKeyScript m' = cryptoKeyScript m" "masterKeyPriv m' = masterKeyPriv m"
    "masterKeyPub m' = masterKeyPub m" "watchingOnly m' = watchingOnly m" "closed m' = closed m"
    "cryptoKeyPrivEncrypted m' = cryptoKeyPrivEncrypted m"
    "cryptoKeyScriptEncrypted m' = cryptoKeyScriptEncrypted m"
    "privPassphraseSalt m' = privPassphraseSalt m"
    "length (heap m') = length (heap m)"
  using assms by (auto simp: lock_def Let_def split: option.splits)

lemma privRefs_after_lock:
  assumes "lock m = Some m'"
  shows "set (privRefs m') \<subseteq> set (privRefs m)"
  using assms
  by (auto simp: privRefs_mem lock_fields[OF assms] secretRefs_def clearAcctKeyPriv_def)

lemma acctKeyPriv_after_lock:
  assumes "lock m = Some m'" "na \<in> set (acctInfo m')"
  shows "acctKeyPriv (snd na) = None"
  using assms by (auto simp: lock_fields(5)[OF assms(1)] clearAcctKeyPriv_def)



subsection \<open>Locking\<close>


lemma lock_post:
  assumes "lock m = Some m'"
  shows "(\<forall>r\<in>set (privRefs m). zeroed (heap m') r) \<and>
         (\<forall>na\<in>set (acctInfo m'). acctKeyPriv (snd na) = None) \<and>
         returnedPrivKeys m' = None \<and> returnedScripts m' = None \<and>
         hashedPrivPassphrase m' = replicate 64 0 \<and> locked m' \<and>
         (\<forall>r\<in>set (privRefs m'). zeroed (heap m') r)"
  using lock_zeroes_privRefs[OF assms] acctKeyPriv_after_lock[OF assms] lock_fields[OF assms]
    privRefs_after_lock[OF assms]
  by blast


lemma lock_exMgr: "lock exMgr = Some exLocked"
  by (simp add: lock_def exMgr_def exLocked_def exAcct_def exHeap_def exLockedHeap_def Let_def
      secretRefs_def zeroOpt_def zeroAt_def writeAt_def rd_def clearAcctKeyPriv_def)


subsection \<open>Unlocking\<close>

lemma alloc_simps [simp]: "fst (alloc h b) = length h" "snd (alloc h b) = h @ [b]"
  by (simp_all add: alloc_def)

lemma rd_append_old: "r < length h \<Longrightarrow> rd (h @ xs) r = rd h r"
  by (simp add: rd_def nth_append)

lemma unlockAccounts_mem:
  assumes "unlockAccounts e cp ai h = (err, ai', h')"
  shows "length h \<le> length h' \<and>
         (\<forall>r. length h \<le> r \<and> r < length h' \<longrightarrow> (\<exists>na\<in>set ai'. acctKeyPriv (snd na) = Some r))"
  using assms
proof (induction ai arbitrary: h err ai' h')
  case Nil
  then show ?case by simp
next
  case (Cons na rest)
  show ?case
  proof (cases "cDecrypt e (rd h cp) (slice h (acctKeyEncrypted (snd na)))")
    case None
    with Cons.prems show ?thesis by auto
  next
    case (Some dec)
    show ?thesis
    proof (cases "hdNewKeyFromString e dec")
      case (ChildKey k)
      obtain err1 rest1 h1 where u: "unlockAccounts e cp rest (h @ [k]) = (err1, rest1, h1)"
        by (cases "unlockAccounts e cp rest (h @ [k])") auto
      from Cons.prems Some ChildKey u have eq: "err = err1"
        "ai' = (fst na, (snd na)\<lparr>acctKeyPriv := Some (length h)\<rparr>) # rest1" "h' = h1"
        by simp_all
      from Cons.IH[OF u] have ih: "length (h @ [k]) \<le> length h1"
        "\<And>r. length (h @ [k]) \<le> r \<Longrightarrow> r < length h1 \<Longrightarrow> \<exists>na\<in>set rest1. acctKeyPriv (snd na) = Some r"
        by auto
      show ?thesis
      proof (intro conjI allI impI)
        show "length h \<le> length h'" using ih(1) eq by simp
      next
        fix r assume r: "length h \<le> r \<and> r < length h'"
        show "\<exists>na\<in>set ai'. acctKeyPriv (snd na) = Some r"
        proof (cases "r = length h")
          case True
          then show ?thesis by (simp add: eq)
        next
          case False
          with r eq have "length (h @ [k]) \<le> r" "r < length h1" by simp_all
          from ih(2)[OF this] show ?thesis by (auto simp: eq)
        qed
      qed
    next
      case ErrInvalidChild
      with Cons.prems Some show ?thesis by auto
    next
      case ChildFailed
      with Cons.prems Some show ?thesis by auto
    qed
  qed
qed

lemma lockWith_Some:
  "lockWith err0 m = Some (Some err, m') \<longleftrightarrow> err = err0 \<and> lock m = Some m'"
  by (auto simp: lockWith_def split: option.splits)

lemma lockWith_not_nil: "lockWith err0 m \<noteq> Some (None, m')"
  by (auto simp: lockWith_def split: option.splits)

text \<open>Every failing path of \<^verbatim>\<open>Unlock\<close> ends in \<^verbatim>\<open>lock\<close>, applied to a state whose memory
  extends the one the call started from by account private keys only.\<close>

lemma Unlock_failure_via_lock:
  assumes "\<not> watchingOnly m" "Unlock e m passphrase = Some (Some err, m')"
  shows "\<exists>m1. lock m1 = Some m' \<and> length (heap m) \<le> length (heap m1) \<and>
           (\<forall>r. length (heap m) \<le> r \<and> r < length (heap m1) \<longrightarrow> r \<in> set (privRefs m1)) \<and>
           (\<not> locked m \<longrightarrow> m1 = m) \<and>
           (passphraseMismatch e m passphrase \<longrightarrow> err = ErrWrongPassphrase)"
proof (cases "locked m")
  case False
  with assms show ?thesis
    by (auto simp: Unlock_def lockWith_Some passphraseMismatch_def split: if_splits)
next
  case True
  from assms True obtain mk where mk: "masterKeyPriv m = Some mk"
    by (auto simp: Unlock_def split: option.splits)
  from assms True mk obtain st h1 where dk: "DeriveKey e mk passphrase (heap m) = Some (st, h1)"
    by (auto simp: Unlock_def split: option.splits)
  then have st: "st = fst (skDerive e (Parameters mk) passphrase)" and len1: "length h1 = length (heap m)"
    by (auto simp: DeriveKey_def writeAt_def split: option.splits)
  have mm: "passphraseMismatch e m passphrase \<longleftrightarrow> st = ErrInvalidPassword"
    by (simp add: passphraseMismatch_def True mk st)
  show ?thesis
  proof (cases "st = DeriveOk")
    case False
    with assms True mk dk have "lock (m\<lparr>heap := h1\<rparr>) = Some m'"
      "st = ErrInvalidPassword \<longrightarrow> err = ErrWrongPassphrase"
      by (auto simp: Unlock_def lockWith_Some split: if_splits)
    then show ?thesis using len1 True mm
      by (intro exI[of _ "m\<lparr>heap := h1\<rparr>"]) auto
  next
    case ok: True
    show ?thesis
    proof (cases "cDecrypt e (slice h1 (Key mk)) (slice h1 (cryptoKeyPrivEncrypted m))")
      case None
      with assms True mk dk ok have "lock (m\<lparr>heap := h1\<rparr>) = Some m'"
        by (auto simp: Unlock_def lockWith_Some)
      then show ?thesis using len1 True mm ok
        by (intro exI[of _ "m\<lparr>heap := h1\<rparr>"]) auto
    next
      case (Some dec)
      from assms True mk dk ok Some obtain cp where cp: "cryptoKeyPriv m = Some cp"
        by (auto simp: Unlock_def split: option.splits)
      obtain e1 ai h3 where u: "unlockAccounts e cp (acctInfo m) (copyInto h1 cp dec) = (e1, ai, h3)"
        by (cases "unlockAccounts e cp (acctInfo m) (copyInto h1 cp dec)") auto
      from assms True mk dk ok Some cp u have l: "lock (m\<lparr>acctInfo := ai, heap := h3\<rparr>) = Some m'"
        by (cases e1) (auto simp: Unlock_def lockWith_Some)
      have len2: "length (copyInto h1 cp dec) = length (heap m)"
        by (simp add: copyInto_def writeAt_def len1)
      from unlockAccounts_mem[OF u] len2
      have "length (heap m) \<le> length h3"
        "\<forall>r. length (heap m) \<le> r \<and> r < length h3 \<longrightarrow> (\<exists>na\<in>set ai. acctKeyPriv (snd na) = Some r)"
        by auto
      then show ?thesis using l True mm ok
        by (intro exI[of _ "m\<lparr>acctInfo := ai, heap := h3\<rparr>"]) (simp add: privRefs_mem)
    qed
  qed
qed

lemma zeroed_beyond: "length h \<le> r \<Longrightarrow> zeroed h r"
  by (simp add: zeroed_def rd_def)

lemma Unlock_mismatch_fails:
  assumes "\<not> watchingOnly m" "passphraseMismatch e m passphrase"
  shows "Unlock e m passphrase \<noteq> Some (None, m')"
  using assms
  by (auto simp: Unlock_def passphraseMismatch_def lockWith_not_nil DeriveKey_def
      split: if_splits option.splits)

text \<open>
  C3. On a manager that is not watching-only, for every passphrase: a passphrase that does
  not match never unlocks; and whenever \<^verbatim>\<open>Unlock\<close> returns an error (on the hash
  comparison of an already unlocked manager, on deriving the master key, on decrypting the
  crypto private key, on decrypting or rebuilding any account key) the error is
  \<open>ErrWrongPassphrase\<close> if the passphrase did not match, and the manager is left locked:
  every private-tier buffer it points to is zero, every buffer allocated during the call
  is zero, every private-tier buffer it held when it was unlocked before the call is zero,
  the account private key pointers are \<^verbatim>\<open>nil\<close>, the returned secrets are dropped and the
  hashed passphrase is zero.
\<close>

theorem unlock_failure_locks:
  assumes "\<not> watchingOnly m"
  shows "(passphraseMismatch e m passphrase \<longrightarrow> (\<forall>m'. Unlock e m passphrase \<noteq> Some (None, m'))) \<and>
         (\<forall>err m'. Unlock e m passphrase = Some (Some err, m') \<longrightarrow>
            locked m' \<and>
            (passphraseMismatch e m passphrase \<longrightarrow> err = ErrWrongPassphrase) \<and>
            (\<forall>r\<in>set (privRefs m'). zeroed (heap m') r) \<and>
            (\<forall>r. length (heap m) \<le> r \<longrightarrow> zeroed (heap m') r) \<and>
            (\<not> locked m \<longrightarrow> (\<forall>r\<in>set (privRefs m). zeroed (heap m') r)) \<and>
            (\<forall>na\<in>set (acctInfo m'). acctKeyPriv (snd na) = None) \<and>
            returnedPrivKeys m' = None \<and> returnedScripts m' = None \<and>
            hashedPrivPassphrase m' = replicate 64 0)"
proof -
  have A: "passphraseMismatch e m passphrase \<longrightarrow> (\<forall>m'. Unlock e m passphrase \<noteq> Some (None, m'))"
    using assms by (auto dest: Unlock_mismatch_fails)
  have B: "locked m' \<and>
            (passphraseMismatch e m passphrase \<longrightarrow> err = ErrWrongPassphrase) \<and>
            (\<forall>r\<in>set (privRefs m'). zeroed (heap m') r) \<and>
            (\<forall>r. length (heap m) \<le> r \<longrightarrow> zeroed (heap m') r) \<and>
            (\<not> locked m \<longrightarrow> (\<forall>r\<in>set (privRefs m). zeroed (heap m') r)) \<and>
            (\<forall>na\<in>set (acctInfo m'). acctKeyPriv (snd na) = None) \<and>
            returnedPrivKeys m' = None \<and> returnedScripts m' = None \<and>
            hashedPrivPassphrase m' = replicate 64 0"
    if u: "Unlock e m passphrase = Some (Some err, m')" for err m'
  proof -
    from Unlock_failure_via_lock[OF assms u] obtain m1 where
      l: "lock m1 = Some m'" and len: "length (heap m) \<le> length (heap m1)"
      and new: "\<forall>r. length (heap m) \<le> r \<and> r < length (heap m1) \<longrightarrow> r \<in> set (privRefs m1)"
      and same: "\<not> locked m \<longrightarrow> m1 = m"
      and mis: "passphraseMismatch e m passphrase \<longrightarrow> err = ErrWrongPassphrase"
      by blast
    note p = lock_post[OF l]
    have fresh: "zeroed (heap m') r" if r: "length (heap m) \<le> r" for r
    proof (cases "r < length (heap m1)")
      case True
      with r new have "r \<in> set (privRefs m1)" by simp
      with p show ?thesis by simp
    next
      case False
      then show ?thesis using lock_fields(16)[OF l] by (simp add: zeroed_beyond)
    qed
    have old: "\<not> locked m \<longrightarrow> (\<forall>r\<in>set (privRefs m). zeroed (heap m') r)"
      using same p by auto
    show ?thesis using p fresh old mis by blast
  qed
  show ?thesis using A B by blast
qed

theorem unlock_failure_witness:
  "\<not> watchingOnly exMgr \<and> passphraseMismatch exEnv exMgr [1] \<and>
   Unlock exEnv exMgr [1] = Some (Some ErrWrongPassphrase, exLocked) \<and>
   locked exLocked \<and> zeroed (heap exLocked) 8 \<and> zeroed (heap exLocked) 1 \<and>
   passphraseMismatch exEnv exLocked [1] \<and>
   map_option fst (Unlock exEnv exLocked [1]) = Some (Some ErrWrongPassphrase)"
proof -
  have a: "\<not> watchingOnly exMgr" by (simp add: exMgr_def)
  have a': "\<not> watchingOnly exLocked" by (simp add: exLocked_def exMgr_def)
  have b: "passphraseMismatch exEnv exMgr [1]"
    by (simp add: passphraseMismatch_def exMgr_def exEnv_def)
  have b': "passphraseMismatch exEnv exLocked [1]"
    by (simp add: passphraseMismatch_def exLocked_def exMgr_def exEnv_def)
  have c: "Unlock exEnv exMgr [1] = Some (Some ErrWrongPassphrase, exLocked)"
    using b a by (simp add: Unlock_def passphraseMismatch_def lockWith_def lock_exMgr)
      (simp add: exMgr_def)
  have d: "privRefs exMgr = [8, 10, 11, 4, 3, 1]"
    by (simp add: privRefs_def exMgr_def exAcct_def optRefs_def secretRefs_def)
  have k: "\<exists>mk. masterKeyPriv exLocked = Some mk \<and> Key mk = Some 1 \<and> cryptoKeyPriv exLocked = Some 3 \<and> cryptoKeyScript exLocked = Some 4 \<and> locked exLocked \<and> Parameters mk = [112, 119]"
    by (simp add: exLocked_def exMgr_def)
  have f: "map_option fst (Unlock exEnv exLocked [1]) = Some (Some ErrWrongPassphrase)"
    using k a' b'
    by (auto simp: Unlock_def DeriveKey_def lockWith_def lock_def Let_def passphraseMismatch_def 
        split: option.splits)
  have g: "\<not> locked exMgr" by (simp add: exMgr_def)
  from unlock_failure_locks[OF a, of exEnv "[1]"] a b c d f b' g
  show ?thesis by simp
qed

subsection \<open>Converting to watching-only\<close>

lemma writeBudget_same: "writeBudget ns = b \<Longrightarrow> ns\<lparr>writeBudget := b\<rparr> = ns"
  by auto

lemma dbWrite_Inr:
  "dbWrite ns f = Inr ns' \<Longrightarrow>
     (\<exists>b. ns' = f (ns\<lparr>writeBudget := b\<rparr>))"
  by (auto simp: dbWrite_def split: option.splits nat.splits)
     (metis writeBudget_same)

lemma addrPrivateField_drop [simp]: "addrPrivateField (dropAddrPrivate row) = []"
  by (cases row) (simp_all add: addrPrivateField_def dropAddrPrivate_def)




lemma lock_hygiene: "lock m = Some m' \<Longrightarrow> lockedHygiene m'"
  using lock_post by (simp add: lockedHygiene_def)






lemma dbWrite_unbounded: "writeBudget ns = None \<Longrightarrow> dbWrite ns f = Inr (f ns)"
  by (simp add: dbWrite_def)

lemma exFullStore_budget: "writeBudget exFullStore = None"
  by (simp add: exFullStore_def exStore_def emptyStore_def)





subsection \<open>Closing\<close>

lemma zeroAcctKeyPubs_post:
  assumes "zeroAcctKeyPubs ai h = Some (ai', h')"
  shows "length h' = length h \<and>
         (\<forall>na\<in>set ai. \<exists>r. acctKeyPub (snd na) = Some r \<and> zeroed h' r) \<and>
         (\<forall>r. zeroed h r \<longrightarrow> zeroed h' r) \<and>
         (\<forall>na\<in>set ai'. acctKeyPub (snd na) = None) \<and>
         map (\<lambda>na. acctKeyPriv (snd na)) ai' = map (\<lambda>na. acctKeyPriv (snd na)) ai"
  using assms
proof (induction ai arbitrary: h ai' h')
  case Nil
  then show ?case by simp
next
  case (Cons na rest)
  from Cons.prems obtain r rest' where
    r: "acctKeyPub (snd na) = Some r" and
    z: "zeroAcctKeyPubs rest (zeroAt h r) = Some (rest', h')" and
    ai': "ai' = (fst na, (snd na)\<lparr>acctKeyPub := None\<rparr>) # rest'"
    by (auto split: option.splits)
  note ih = Cons.IH[OF z]
  have "zeroed h' r" using ih by simp
  moreover have "\<forall>r'. zeroed h r' \<longrightarrow> zeroed h' r'"
    using ih by (simp add: zeroed_zeroAt_keep)
  ultimately show ?case using ih r ai' by auto
qed

lemma pubRefs_mem:
  "r \<in> set (pubRefs m) \<longleftrightarrow>
     (\<exists>na \<in> set (acctInfo m). acctKeyPub (snd na) = Some r) \<or> r = cryptoKeyPub m \<or>
     Key (masterKeyPub m) = Some r"
  unfolding pubRefs_def set_append concat_optRefs_mem Un_iff optRefs_mem by auto

lemma zeroSensitivePublicData_post:
  assumes "zeroSensitivePublicData m = Some m'"
  shows "(\<forall>r\<in>set (pubRefs m). zeroed (heap m') r) \<and>
         (\<forall>r. zeroed (heap m) r \<longrightarrow> zeroed (heap m') r) \<and>
         (\<forall>na\<in>set (acctInfo m'). acctKeyPub (snd na) = None) \<and>
         map (\<lambda>na. acctKeyPriv (snd na)) (acctInfo m') = map (\<lambda>na. acctKeyPriv (snd na)) (acctInfo m) \<and>
         locked m' = locked m \<and> watchingOnly m' = watchingOnly m"
proof -
  from assms obtain ai h1 k where
    z: "zeroAcctKeyPubs (acctInfo m) (heap m) = Some (ai, h1)" and
    k: "Key (masterKeyPub m) = Some k" and
    m': "m' = m\<lparr>acctInfo := ai, heap := zeroAt (zeroAt h1 (cryptoKeyPub m)) k\<rparr>"
    by (auto simp: zeroSensitivePublicData_def split: option.splits)
  note p = zeroAcctKeyPubs_post[OF z]
  have keep: "zeroed (heap m') r" if "zeroed h1 r" for r
    using that by (simp add: m' zeroed_zeroAt_keep)
  have "zeroed (heap m') r" if "r \<in> set (pubRefs m)" for r
  proof -
    from that consider (a) "\<exists>na \<in> set (acctInfo m). acctKeyPub (snd na) = Some r"
      | (b) "r = cryptoKeyPub m" | (c) "r = k"
      using k by (auto simp: pubRefs_mem)
    then show ?thesis
    proof cases
      case a
      with p have "zeroed h1 r" by fastforce
      then show ?thesis by (rule keep)
    next
      case b then show ?thesis by (simp add: m' zeroed_zeroAt_keep)
    next
      case c then show ?thesis by (simp add: m')
    qed
  qed
  moreover have "\<forall>r. zeroed (heap m) r \<longrightarrow> zeroed (heap m') r"
    using p keep by blast
  ultimately show ?thesis using p by (simp add: m')
qed

text \<open>
  C9 (as amended). After \<^verbatim>\<open>Close\<close> has returned, on a manager that respects invariant 6 and
  is locked whenever it is watching-only: the call returned \<^verbatim>\<open>nil\<close>, the closed flag is set,
  every private-tier buffer and every sensitive public buffer the manager pointed to (the
  account public keys, the crypto public key, the master public key) is zero, the account
  key pointers are \<^verbatim>\<open>nil\<close> and the manager is locked. Nothing is said about later calls:
  no operation of the manager reads the closed flag.
\<close>

theorem close_zeroes_all_keys:
  assumes "Close m = Some (err, m')" and "lockedHygiene m" and "watchingOnly m \<longrightarrow> locked m"
  shows "err = None \<and> closed m' \<and> locked m' \<and>
         (\<forall>r\<in>set (privRefs m) \<union> set (pubRefs m). zeroed (heap m') r) \<and>
         (\<forall>na\<in>set (acctInfo m'). acctKeyPub (snd na) = None \<and> acctKeyPriv (snd na) = None)"
proof -
  from assms(1) obtain m1 m2 where
    l: "(if \<not> watchingOnly m \<and> \<not> locked m then lock m else Some m) = Some m1" and
    z: "zeroSensitivePublicData m1 = Some m2" and
    m': "m' = m2\<lparr>closed := True\<rparr>" and e: "err = None"
    by (auto simp: Close_def split: option.splits)
  have m1: "locked m1 \<and> (\<forall>r\<in>set (privRefs m). zeroed (heap m1) r) \<and>
            (\<forall>na\<in>set (acctInfo m1). acctKeyPriv (snd na) = None) \<and>
            (\<forall>r. (\<exists>na \<in> set (acctInfo m). acctKeyPub (snd na) = Some r) \<or> r = cryptoKeyPub m \<or>
                 Key (masterKeyPub m) = Some r \<longrightarrow>
               (\<exists>na \<in> set (acctInfo m1). acctKeyPub (snd na) = Some r) \<or> r = cryptoKeyPub m1 \<or>
                 Key (masterKeyPub m1) = Some r)"
  proof (cases "locked m")
    case True
    with l assms(2) show ?thesis by (auto simp: lockedHygiene_def)
  next
    case False
    with assms(3) l have lk: "lock m = Some m1" by auto
    show ?thesis
      using lock_post[OF lk] by (auto simp: lock_fields[OF lk] clearAcctKeyPriv_def)
  qed
  note p = zeroSensitivePublicData_post[OF z]
  have pub: "zeroed (heap m2) r" if "r \<in> set (pubRefs m)" for r
  proof -
    from that m1 have "r \<in> set (pubRefs m1)" unfolding pubRefs_mem by blast
    with p show ?thesis by blast
  qed
  have priv: "zeroed (heap m2) r" if "r \<in> set (privRefs m)" for r
    using that m1 p by blast
  have "\<forall>na\<in>set (acctInfo m2). acctKeyPriv (snd na) = None"
  proof -
    from p have "set (map (\<lambda>na. acctKeyPriv (snd na)) (acctInfo m2)) =
                 set (map (\<lambda>na. acctKeyPriv (snd na)) (acctInfo m1))" by simp
    with m1 show ?thesis by (auto simp: image_iff)
  qed
  then show ?thesis using e m1 p pub priv by (auto simp: m')
qed

lemma close_exMgr:
  "Close exMgr = Some (None, exLocked\<lparr>acctInfo := [(0, exAcct\<lparr>acctKeyPriv := None, acctKeyPub := None\<rparr>)],
       heap := [[0], [0, 0, 0], [0], [0], [0], [112, 119, 1, 12], [112, 119, 1, 13],
                [12, 3, 7, 0], [0, 0, 0], [0, 0, 0], [0, 0, 0, 0, 0], [0, 0]], closed := True\<rparr>)"
proof -
  have "\<not> watchingOnly exMgr \<and> \<not> locked exMgr" by (simp add: exMgr_def)
  then show ?thesis
    by (simp add: Close_def lock_exMgr)
       (simp add: zeroSensitivePublicData_def exLocked_def exMgr_def exAcct_def exLockedHeap_def
          zeroAt_def writeAt_def rd_def)
qed

lemma unlock_closed_exMgr:
  "Unlock exEnv (exLocked\<lparr>acctInfo := [(0, exAcct\<lparr>acctKeyPriv := None, acctKeyPub := None\<rparr>)],
       heap := [[0], [0, 0, 0], [0], [0], [0], [112, 119, 1, 12], [112, 119, 1, 13],
                [12, 3, 7, 0], [0, 0, 0], [0, 0, 0], [0, 0, 0, 0, 0], [0, 0]], closed := True\<rparr>) exPass
   = Some (None, exReopened)"
  by (simp add: Unlock_def exLocked_def exMgr_def exAcct_def DeriveKey_def exEnv_def exPass_def
      writeAt_def slice_def rd_def exDecrypt_def copyInto_def alloc_def exReopened_def)

theorem close_then_unlock_counterexample:
  "closeThenUnlock exEnv exMgr exPass = Some (None, exReopened) \<and>
   closed exReopened \<and> \<not> locked exReopened"
  by (simp add: closeThenUnlock_def close_exMgr unlock_closed_exMgr)
     (simp add: exReopened_def exMgr_def)

theorem close_zeroes_witness:
  "lockedHygiene exMgr \<and> \<not> watchingOnly exMgr \<and>
   map_option fst (Close exMgr) = Some None \<and>
   pubRefs exMgr = [9, 2, 0] \<and> privRefs exMgr = [8, 10, 11, 4, 3, 1] \<and>
   map_option (\<lambda>r. heap (snd r)) (Close exMgr) =
     Some [[0], [0, 0, 0], [0], [0], [0], [112, 119, 1, 12], [112, 119, 1, 13],
           [12, 3, 7, 0], [0, 0, 0], [0, 0, 0], [0, 0, 0, 0, 0], [0, 0]] \<and>
   map_option (\<lambda>r. closed (snd r)) (Close exMgr) = Some True"
proof -
  have a: "lockedHygiene exMgr" "watchingOnly exMgr \<longrightarrow> locked exMgr"
    by (simp_all add: lockedHygiene_def exMgr_def)
  have b: "pubRefs exMgr = [9, 2, 0]" "privRefs exMgr = [8, 10, 11, 4, 3, 1]"
    by (simp_all add: pubRefs_def privRefs_def exMgr_def exAcct_def optRefs_def secretRefs_def)
  from close_zeroes_all_keys[OF close_exMgr a] have "closed (exLocked\<lparr>acctInfo := [(0, exAcct\<lparr>acctKeyPriv := None, acctKeyPub := None\<rparr>)],
       heap := [[0], [0, 0, 0], [0], [0], [0], [112, 119, 1, 12], [112, 119, 1, 13],
                [12, 3, 7, 0], [0, 0, 0], [0, 0, 0], [0, 0, 0, 0, 0], [0, 0]], closed := True\<rparr>)"
    by blast
  moreover have "\<not> watchingOnly exMgr" by (simp add: exMgr_def)
  ultimately show ?thesis using a b by (simp add: close_exMgr)
qed

subsection \<open>Changing the passphrase\<close>

lemma dbWrite_Inl: "dbWrite ns f = Inl err \<Longrightarrow> err = ErrDatabase"
  by (auto simp: dbWrite_def split: option.splits nat.splits)

lemma changePrivate_failure:
  assumes "changePrivate e ns m np sk kp mk = Some (Some err, ns', m')"
  shows "m' = m \<and> (err \<noteq> ErrDatabase \<longrightarrow> ns' = ns)"
  using assms
  by (auto simp: changePrivate_def maybeConvertDbError_def putCryptoKeys_def
      putMasterKeyParams_def dest: dbWrite_Inl split: option.splits sum.splits)

lemma changePublic_failure:
  assumes "changePublic e ns m kp mk = Some (Some err, ns', m')"
  shows "m' = m \<and> (err \<noteq> ErrDatabase \<longrightarrow> ns' = ns)"
  using assms
  by (auto simp: changePublic_def maybeConvertDbError_def putCryptoKeys_def
      putMasterKeyParams_def dest: dbWrite_Inl split: option.splits sum.splits)

lemma ChangePassphrase_failure:
  assumes "ChangePassphrase e ns m old new private = Some (Some err, ns', m')"
  shows "m' = m \<and> (err \<noteq> ErrDatabase \<longrightarrow> ns' = ns)"
  using assms
  by (auto simp: ChangePassphrase_def dest: changePrivate_failure changePublic_failure
      split: if_splits option.splits prod.splits)

lemma zeroed_append_old: "k < length h \<Longrightarrow> zeroed (h @ xs) k = zeroed h k"
  by (simp add: zeroed_def rd_def nth_append)

lemma length_copyIntoOpt [simp]: "length (copyIntoOpt h p src) = length h"
  by (simp add: copyIntoOpt_def copyInto_def split: option.splits)

lemma changePrivate_success:
  assumes "changePrivate e ns m np sk kp newKey = Some (None, ns', m')"
  shows "masterParams m' True = Some kp \<and> storedMasterParams ns' True = Some kp \<and>
         (\<forall>k. masterKeyRef m True = Some k \<and> k < length (heap m) \<longrightarrow> zeroed (heap m') k) \<and>
         length (heap m') = length (heap m) + 1 \<and>
         masterKeyRef m' True = Some (length (heap m))"
proof -
  from assms obtain salt encPriv encScript ns1 mk k where
    p1: "putCryptoKeys ns None (Some encPriv) (Some encScript) = Inr ns1" and
    p2: "putMasterKeyParams ns1 None (Some kp) = Inr ns'" and
    mk: "masterKeyPriv m = Some mk" "Key mk = Some k" and
    m': "m' = m\<lparr>masterKeyPriv := Some \<lparr>Key = Some (length (heap m)), Parameters = kp\<rparr>,
              privPassphraseSalt := salt,
              hashedPrivPassphrase :=
                (if locked m then replicate 64 0 else sha512Sum e (salt @ np)),
              heap := zeroAt (copyIntoOpt (copyIntoOpt (heap m) (cryptoKeyPrivEncrypted m) encPriv)
                                (cryptoKeyScriptEncrypted m) encScript) k @
                      [if locked m then replicate (length newKey) 0 else newKey]\<rparr>"
    by (auto simp: changePrivate_def split: option.splits sum.splits)
  from dbWrite_Inr[OF p2[unfolded putMasterKeyParams_def]]
  have "masterKeyPrivParams ns' = Some kp" by (auto simp: orElse_def)
  then show ?thesis
    by (auto simp: m' masterParams_def storedMasterParams_def masterKeyRef_def mk
        zeroed_append_old)
qed

lemma changePublic_success:
  assumes "changePublic e ns m kp newKey = Some (None, ns', m')"
  shows "masterParams m' False = Some kp \<and> storedMasterParams ns' False = Some kp \<and>
         (\<forall>k. masterKeyRef m False = Some k \<and> k < length (heap m) \<longrightarrow> zeroed (heap m') k) \<and>
         length (heap m') = length (heap m) + 1 \<and>
         masterKeyRef m' False = Some (length (heap m))"
proof -
  from assms obtain encPub ns1 k where
    p1: "putCryptoKeys ns (Some encPub) None None = Inr ns1" and
    p2: "putMasterKeyParams ns1 (Some kp) None = Inr ns'" and
    mk: "Key (masterKeyPub m) = Some k" and
    m': "m' = m\<lparr>masterKeyPub := \<lparr>Key = Some (length (heap m)), Parameters = kp\<rparr>,
              heap := zeroAt (heap m) k @ [newKey]\<rparr>"
    by (auto simp: changePublic_def split: option.splits sum.splits)
  from dbWrite_Inr[OF p2[unfolded putMasterKeyParams_def]]
  have "masterKeyPubParams ns' = Some kp" by (auto simp: orElse_def)
  then show ?thesis
    by (auto simp: m' masterParams_def storedMasterParams_def masterKeyRef_def mk
        zeroed_append_old)
qed

lemma ChangePassphrase_success:
  assumes "ChangePassphrase e ns m old new private = Some (None, ns', m')"
  shows "(\<exists>p. masterParams m private = Some p \<and> fst (skDerive e p old) = DeriveOk) \<and>
         (\<exists>kp newKey. skNew e new defaultScryptOptions = Some (kp, newKey) \<and>
            masterParams m' private = Some kp \<and> storedMasterParams ns' private = Some kp) \<and>
         (\<forall>k. masterKeyRef m private = Some k \<and> k < length (heap m) \<longrightarrow> zeroed (heap m') k) \<and>
         length (heap m') = length (heap m) + 1 \<and>
         masterKeyRef m' private = Some (length (heap m))"
proof -
  from assms obtain p kp newKey where
    p: "masterParams m private = Some p" "fst (skDerive e p old) = DeriveOk" and
    n: "skNew e new defaultScryptOptions = Some (kp, newKey)" and
    c: "(private \<and> changePrivate e ns m new
           (case snd (skDerive e p old) of None \<Rightarrow> replicate 32 0 | Some b \<Rightarrow> b) kp newKey =
             Some (None, ns', m')) \<or>
        (\<not> private \<and> changePublic e ns m kp newKey = Some (None, ns', m'))"
    by (auto simp: ChangePassphrase_def split: if_splits option.splits prod.splits)
  from c show ?thesis
  proof
    assume a: "private \<and> changePrivate e ns m new
           (case snd (skDerive e p old) of None \<Rightarrow> replicate 32 0 | Some b \<Rightarrow> b) kp newKey =
             Some (None, ns', m')"
    then have t: "private = True" by simp
    from changePrivate_success[OF conjunct2[OF a]] p n show ?thesis
      unfolding t by blast
  next
    assume a: "\<not> private \<and> changePublic e ns m kp newKey = Some (None, ns', m')"
    then have t: "private = False" by simp
    from changePublic_success[OF conjunct2[OF a]] p n show ?thesis
      unfolding t by blast
  qed
qed

lemma ChangePassphrase_wrong:
  assumes "\<not> (private \<and> watchingOnly m)" "masterParams m private = Some p"
    "fst (skDerive e p old) = ErrInvalidPassword"
  shows "ChangePassphrase e ns m old new private = Some (Some ErrWrongPassphrase, ns, m)"
  using assms by (auto simp: ChangePassphrase_def)

text \<open>
  C8. \<^verbatim>\<open>ChangePassphrase\<close> checks the old passphrase on a copy of the master key parameters
  and never on the live key. Whenever it returns an error, the manager (master keys, wrapped
  crypto keys, salt, hash and every buffer) is exactly as before, and unless the error is
  the store's own \<open>ErrDatabase\<close>, raised by one of the two writes, the store is as before
  too. An old passphrase that does not authenticate gives \<open>ErrWrongPassphrase\<close>. When the
  call succeeds, the old passphrase was verified, both writes were made (the store holds the
  new master key parameters), and only then the old master key buffer is zeroed and the
  manager points to a new master key in a fresh buffer.
\<close>

theorem change_passphrase_atomic:
  "(\<forall>err ns' m'. ChangePassphrase e ns m old new private = Some (Some err, ns', m') \<longrightarrow>
      m' = m \<and> (err \<noteq> ErrDatabase \<longrightarrow> ns' = ns)) \<and>
   (\<forall>p. \<not> (private \<and> watchingOnly m) \<and> masterParams m private = Some p \<and>
        fst (skDerive e p old) = ErrInvalidPassword \<longrightarrow>
      ChangePassphrase e ns m old new private = Some (Some ErrWrongPassphrase, ns, m)) \<and>
   (\<forall>ns' m'. ChangePassphrase e ns m old new private = Some (None, ns', m') \<longrightarrow>
      (\<exists>p. masterParams m private = Some p \<and> fst (skDerive e p old) = DeriveOk) \<and>
      (\<exists>kp newKey. skNew e new defaultScryptOptions = Some (kp, newKey) \<and>
         masterParams m' private = Some kp \<and> storedMasterParams ns' private = Some kp) \<and>
      (\<forall>k. masterKeyRef m private = Some k \<and> k < length (heap m) \<longrightarrow> zeroed (heap m') k) \<and>
      length (heap m') = length (heap m) + 1 \<and>
      masterKeyRef m' private = Some (length (heap m)))"
  using ChangePassphrase_failure[of e ns m old new "private"]
    ChangePassphrase_wrong[of "private" m _ e old ns new]
    ChangePassphrase_success[of e ns m old new "private"]
  by blast

lemma change_exMgr_wrong:
  "ChangePassphrase exEnv exFullStore exMgr [1] [110, 112] True =
     Some (Some ErrWrongPassphrase, exFullStore, exMgr)"
  by (simp add: ChangePassphrase_def masterParams_def exMgr_def exEnv_def)

lemma change_exMgr_ok:
  "(case ChangePassphrase exEnv exFullStore exMgr exPass [110, 112] True of
      Some (None, ns', m') \<Rightarrow>
        rd (heap m') 1 = [0, 0, 0] \<and> rd (heap m') 12 = [110, 112, 1] \<and>
        masterKeyPrivParams ns' = Some [110, 112]
    | _ \<Rightarrow> False)"
  by (simp add: ChangePassphrase_def masterParams_def changePrivate_def putCryptoKeys_def
      putMasterKeyParams_def dbWrite_unbounded exFullStore_budget orElse_def
      exMgr_def exEnv_def exPass_def exDecrypt_def slice_def rd_def exHeap_def
      copyIntoOpt_def copyInto_def zeroAt_def writeAt_def maybeConvertDbError_def)

theorem change_passphrase_witness:
  "ChangePassphrase exEnv exFullStore exMgr [1] [110, 112] True =
     Some (Some ErrWrongPassphrase, exFullStore, exMgr) \<and>
   masterParams exMgr True = Some [112, 119] \<and>
   fst (skDerive exEnv [112, 119] [1]) = ErrInvalidPassword \<and>
   map_option fst (ChangePassphrase exEnv exFullStore exMgr exPass [110, 112] True) = Some None \<and>
   map_option (\<lambda>r. zeroed (heap (snd (snd r))) 1)
     (ChangePassphrase exEnv exFullStore exMgr exPass [110, 112] True) = Some True \<and>
   map_option (\<lambda>r. storedMasterParams (fst (snd r)) True)
     (ChangePassphrase exEnv exFullStore exMgr exPass [110, 112] True) = Some (Some [110, 112]) \<and>
   masterKeyRef exMgr True = Some 1"
proof -
  have a: "masterParams exMgr True = Some [112, 119]" "masterKeyRef exMgr True = Some 1"
    "\<not> watchingOnly exMgr" "length (heap exMgr) = 12"
    by (simp_all add: masterParams_def masterKeyRef_def exMgr_def exHeap_def)
  have b: "fst (skDerive exEnv [112, 119] [1]) = ErrInvalidPassword"
    by (simp add: exEnv_def)
  have c: "skNew exEnv [110, 112] defaultScryptOptions = Some ([110, 112], [110, 112, 1])"
    by (simp add: exEnv_def)
  note t = change_passphrase_atomic[of exEnv exFullStore exMgr _ "[110, 112]" True]
  from t[of "[1]"] a b
  have w: "ChangePassphrase exEnv exFullStore exMgr [1] [110, 112] True =
     Some (Some ErrWrongPassphrase, exFullStore, exMgr)" by blast
  from change_exMgr_ok obtain ns' m' where
    ok: "ChangePassphrase exEnv exFullStore exMgr exPass [110, 112] True = Some (None, ns', m')"
    by (auto split: option.splits prod.splits)
  from t[of exPass] ok a c
  have "zeroed (heap m') 1 \<and> storedMasterParams ns' True = Some [110, 112]"
    by auto
  then show ?thesis using w a b ok by simp
qed

subsection \<open>Watching-only managers\<close>

text \<open>
  C6. On a watching-only manager, each of \<^verbatim>\<open>Lock\<close>, \<^verbatim>\<open>Unlock\<close>, \<^verbatim>\<open>ChangePassphrase\<close> of the
  private passphrase, \<^verbatim>\<open>NewAccount\<close>, \<^verbatim>\<open>PrivateKey\<close> and \<^verbatim>\<open>RedeemScript\<close> returns the error
  \<open>ErrWatchingOnly\<close> and leaves the manager, and the store where it takes one, as they were.
\<close>

theorem watching_only_rejects:
  assumes "watchingOnly m"
  shows "Lock m = Some (Some ErrWatchingOnly, m) \<and>
         Unlock e m passphrase = Some (Some ErrWatchingOnly, m) \<and>
         ChangePassphrase e ns m old new True = Some (Some ErrWatchingOnly, ns, m) \<and>
         NewAccount e ns m nm = Some (Inl ErrWatchingOnly, ns) \<and>
         PrivateKey e ns m addr = Some (Inl ErrWatchingOnly, m) \<and>
         RedeemScript e ns m addr = Some (Inl ErrWatchingOnly, m)"
  using assms
  by (simp add: Lock_def Unlock_def ChangePassphrase_def NewAccount_def PrivateKey_def
      RedeemScript_def)

theorem watching_only_rejects_witness:
  "watchingOnly exWatching \<and>
   Lock exWatching = Some (Some ErrWatchingOnly, exWatching) \<and>
   Unlock exEnv exWatching exPass = Some (Some ErrWatchingOnly, exWatching) \<and>
   ChangePassphrase exEnv exWatchStore exWatching exPass [1] True =
     Some (Some ErrWatchingOnly, exWatchStore, exWatching) \<and>
   NewAccount exEnv exWatchStore exWatching ''savings'' = Some (Inl ErrWatchingOnly, exWatchStore) \<and>
   PrivateKey exEnv exWatchStore exWatching [2, 9] = Some (Inl ErrWatchingOnly, exWatching) \<and>
   RedeemScript exEnv exWatchStore exWatching [2, 9] = Some (Inl ErrWatchingOnly, exWatching)"
proof -
  have w: "watchingOnly exWatching" by (simp add: exWatching_def)
  from watching_only_rejects[OF w, of exEnv exPass exWatchStore exPass "[1]" "''savings''" "[2, 9]"] w
  show ?thesis by blast
qed

subsection \<open>Creating an account\<close>

lemma putAccountInfo_post:
  assumes "putAccountInfo ns account row = Inr ns'"
  shows "acctBucket ns' account = Some row \<and> acctIdIdx ns' account = Some (name row) \<and>
         acctNameIdx ns' (name row) = Some account \<and> lastAccount ns' = lastAccount ns"
proof -
  from assms obtain ns1 ns2 where
    a: "putAccountRow ns account row = Inr ns1" and
    b: "putAccountIDIndex ns1 account (name row) = Inr ns2" and
    c: "putAccountNameIndex ns2 account (name row) = Inr ns'"
    by (auto simp: putAccountInfo_def split: sum.splits)
  from dbWrite_Inr[OF a[unfolded putAccountRow_def]]
    dbWrite_Inr[OF b[unfolded putAccountIDIndex_def]]
    dbWrite_Inr[OF c[unfolded putAccountNameIndex_def]]
  show ?thesis by auto
qed

lemma putLastAccount_post:
  assumes "putLastAccount ns account = Inr ns'"
  shows "lastAccount ns' = Some account \<and> acctBucket ns' = acctBucket ns \<and>
         acctIdIdx ns' = acctIdIdx ns \<and> acctNameIdx ns' = acctNameIdx ns"
  using dbWrite_Inr[OF assms[unfolded putLastAccount_def]] by auto

lemma not_zero_u32: "(NOT 0 :: u32) = 0xFFFFFFFF"
  by simp

lemma newAccountRow_fields:
  "lastUsedExternalIndex (bip0044AccountInfo pubEnc privEnc 0 0 (NOT 0) (NOT 0) 0 0 nm) = 0xFFFFFFFF"
  "lastUsedInternalIndex (bip0044AccountInfo pubEnc privEnc 0 0 (NOT 0) (NOT 0) 0 0 nm) = 0xFFFFFFFF"
  "lastReturnedExternalIndex (bip0044AccountInfo pubEnc privEnc 0 0 (NOT 0) (NOT 0) 0 0 nm) = 0"
  "lastReturnedInternalIndex (bip0044AccountInfo pubEnc privEnc 0 0 (NOT 0) (NOT 0) 0 0 nm) = 0"
  "name (bip0044AccountInfo pubEnc privEnc 0 0 (NOT 0) (NOT 0) 0 0 nm) = nm"
  unfolding bip0044AccountInfo_def by simp_all

lemma newAccountKeys_post:
  assumes "newAccountKeys e ns m cp nm account k = Some (Inr n, ns')"
  shows "n = account \<and> lastAccount ns' = Some account \<and> acctNameIdx ns' nm = Some account \<and>
         acctIdIdx ns' account = Some nm \<and>
         (\<exists>row. acctBucket ns' account = Some row \<and>
            lastUsedExternalIndex row = 0xFFFFFFFF \<and> lastUsedInternalIndex row = 0xFFFFFFFF \<and>
            lastReturnedExternalIndex row = 0 \<and> lastReturnedInternalIndex row = 0 \<and>
            name row = nm)"
proof -
  from assms have "\<exists>pubEnc privEnc ns1.
      putAccountInfo ns account
          (bip0044AccountInfo pubEnc privEnc 0 0 (NOT 0) (NOT 0) 0 0 nm) = Inr ns1 \<and>
      putLastAccount ns1 account = Inr ns' \<and> n = account"
    unfolding newAccountKeys_def
    apply (simp only: option.case_eq_if sum.case_eq_if split: if_splits)
          apply simp_all
    apply (metis sum.collapse(2))
    done
  then obtain pubEnc privEnc ns1 where
    a: "putAccountInfo ns account
          (bip0044AccountInfo pubEnc privEnc 0 0 (NOT 0) (NOT 0) 0 0 nm) = Inr ns1" and
    b: "putLastAccount ns1 account = Inr ns'" and n: "n = account"
    by blast
  let ?row = "bip0044AccountInfo pubEnc privEnc 0 0 (NOT 0) (NOT 0) 0 0 nm"
  note f = newAccountRow_fields[of pubEnc privEnc nm]
  from putAccountInfo_post[OF a] have
    r1: "acctBucket ns1 account = Some ?row" and r2: "acctIdIdx ns1 account = Some (name ?row)"
    and r3: "acctNameIdx ns1 (name ?row) = Some account" by blast+
  from putLastAccount_post[OF b] have
    q: "lastAccount ns' = Some account" "acctBucket ns' = acctBucket ns1"
       "acctIdIdx ns' = acctIdIdx ns1" "acctNameIdx ns' = acctNameIdx ns1" by blast+
  have 1: "acctBucket ns' account = Some ?row" by (simp only: q r1)
  have 2: "acctIdIdx ns' account = Some nm" using r2 by (simp only: q f)
  have 3: "acctNameIdx ns' nm = Some account" using r3 by (simp only: q f)
  have 4: "\<exists>row. acctBucket ns' account = Some row \<and>
            lastUsedExternalIndex row = 0xFFFFFFFF \<and> lastUsedInternalIndex row = 0xFFFFFFFF \<and>
            lastReturnedExternalIndex row = 0 \<and> lastReturnedInternalIndex row = 0 \<and>
            name row = nm"
    using 1 f by blast
  show ?thesis using n q(1) 2 3 4 by blast
qed

lemma unat_succ_u32:
  assumes "a \<le> MaxAccountNum"
  shows "unat (a + 1 :: u32) = unat a + 1"
proof -
  have "unat a \<le> unat MaxAccountNum"
    using assms by (simp add: word_le_nat_alt)
  moreover have "unat MaxAccountNum = 2147483646"
    by (simp add: MaxAccountNum_def HardenedKeyStart_def)
  ultimately have "unat a + unat (1 :: u32) < 2 ^ LENGTH(32)"
    by simp
  then have "unat (a + 1) = unat a + unat (1 :: u32)"
    by (simp only: unat_add_lem)
  then show ?thesis by simp
qed

text \<open>
  C5. On an unlocked manager that is not watching-only, with a name that is not empty, not
  reserved and not yet the name of an account: when \<^verbatim>\<open>NewAccount\<close> returns an account number,
  that number is the stored last account plus one (without wrap-around: it does not exceed
  \<open>MaxAccountNum\<close>), it is persisted as the new last account, and the row written for it has
  both last-used indexes equal to the sentinel \<open>0xFFFFFFFF\<close>, both last-returned indexes
  equal to \<open>0\<close>, and the given name, indexed both ways.
\<close>

theorem new_account_assigns_next:
  assumes "\<not> watchingOnly m" and "\<not> locked m"
    and "nm \<noteq> []" and "\<not> isReservedAccountName nm" and "acctNameIdx ns nm = None"
    and "NewAccount e ns m nm = Some (Inr n, ns')"
  shows "(\<exists>lastAcct. lastAccount ns = Some lastAcct \<and> n = lastAcct + 1 \<and>
            n \<le> MaxAccountNum \<and>
            (lastAcct \<le> MaxAccountNum \<longrightarrow> unat n = unat lastAcct + 1)) \<and>
         lastAccount ns' = Some n \<and> acctNameIdx ns' nm = Some n \<and> acctIdIdx ns' n = Some nm \<and>
         (\<exists>row. acctBucket ns' n = Some row \<and>
            lastUsedExternalIndex row = 0xFFFFFFFF \<and> lastUsedInternalIndex row = 0xFFFFFFFF \<and>
            lastReturnedExternalIndex row = 0 \<and> lastReturnedInternalIndex row = 0 \<and>
            name row = nm)"
proof -
  from assms(6) obtain lastAcct cp k' where
    l: "lastAccount ns = Some lastAcct" and
    d: "\<not> (lastAcct + 1 > MaxAccountNum)" and
    k': "newAccountKeys e ns m cp nm (lastAcct + 1) k' = Some (Inr n, ns')"
    by (auto simp: NewAccount_def fetchLastAccount_def deriveAccountKey_def
        split: if_splits option.splits sum.splits ChildResult.splits)
  note p = newAccountKeys_post[OF k']
  from p have n: "n = lastAcct + 1" by simp
  from d have le: "lastAcct + 1 \<le> MaxAccountNum" by simp
  have u: "lastAcct \<le> MaxAccountNum \<longrightarrow> unat (lastAcct + 1) = unat lastAcct + 1"
    using unat_succ_u32 by blast
  show ?thesis using l n le u p by auto
qed

lemma new_account_exMgr:
  "(case NewAccount exEnv exFullStore exMgr ''savings'' of
      Some (Inr n, ns') \<Rightarrow> n = 1
    | _ \<Rightarrow> False)"
  by (simp add: NewAccount_def ValidateAccountName_def isReservedAccountName_def
      ImportedAddrAccountName_def fetchAccountByName_def fetchLastAccount_def
      fetchCoinTypeKeys_def deriveAccountKey_def newAccountKeys_def putAccountInfo_def
      putAccountRow_def putAccountIDIndex_def putAccountNameIndex_def putLastAccount_def
      dbWrite_unbounded exFullStore_budget MaxAccountNum_def HardenedKeyStart_def
      exMgr_def exEnv_def exDecrypt_def exChild_def exIsPublic_def rd_def exHeap_def
      exFullStore_def exStore_def emptyStore_def)

theorem new_account_witness:
  "\<not> watchingOnly exMgr \<and> \<not> locked exMgr \<and> \<not> isReservedAccountName ''savings'' \<and>
   acctNameIdx exFullStore ''savings'' = None \<and> lastAccount exFullStore = Some 0 \<and>
   map_option fst (NewAccount exEnv exFullStore exMgr ''savings'') = Some (Inr 1) \<and>
   map_option (\<lambda>r. lastAccount (snd r)) (NewAccount exEnv exFullStore exMgr ''savings'') =
     Some (Some 1) \<and>
   map_option (\<lambda>r. map_option lastUsedExternalIndex (acctBucket (snd r) 1))
     (NewAccount exEnv exFullStore exMgr ''savings'') = Some (Some 0xFFFFFFFF) \<and>
   map_option (\<lambda>r. map_option lastReturnedExternalIndex (acctBucket (snd r) 1))
     (NewAccount exEnv exFullStore exMgr ''savings'') = Some (Some 0)"
proof -
  have a: "\<not> watchingOnly exMgr" "\<not> locked exMgr" by (simp_all add: exMgr_def)
  have b: "''savings'' \<noteq> []" "\<not> isReservedAccountName ''savings''"
    by (simp_all add: isReservedAccountName_def ImportedAddrAccountName_def)
  have c: "acctNameIdx exFullStore ''savings'' = None" "lastAccount exFullStore = Some 0"
    by (simp_all add: exFullStore_def)
  from new_account_exMgr obtain ns' where
    r: "NewAccount exEnv exFullStore exMgr ''savings'' = Some (Inr 1, ns')"
    by (auto split: option.splits prod.splits sum.splits)
  from new_account_assigns_next[OF a b c(1) r]
  have "lastAccount ns' = Some 1 \<and>
        (\<exists>row. acctBucket ns' 1 = Some row \<and> lastUsedExternalIndex row = 0xFFFFFFFF \<and>
           lastReturnedExternalIndex row = 0)"
    by blast
  then show ?thesis using a b c r by auto
qed

subsection \<open>Synchronising addresses\<close>



lemma word_pos_zero: "((0 :: u32) < j) = (j \<noteq> 0)"
  by (simp add: word_gt_0)














lemma sync_success_args:
  assumes "SyncAccountToAddrIndex e ns m account k branch = Some (None, ns', m')"
  shows "account \<le> MaxAccountNum \<and> account \<noteq> ImportedAddrAccount \<and>
         (branch = ExternalBranch \<or> branch = InternalBranch) \<and> k \<le> MaxAddressesPerAccount"
  using assms
  by (auto simp: SyncAccountToAddrIndex_def syncAccountToAddrIndex_def
           split: option.splits sum.splits ChildResult.splits if_splits prod.splits)


lemma withChainedRow_simps [simp]:
  "writeBudget (withChainedRow ns h account branch c) = writeBudget ns"
  "addrBucket (withChainedRow ns h account branch c) =
     (addrBucket ns)(h \<mapsto> dbChainAddressRow account branch c)"
  by (simp_all add: withChainedRow_def)

lemma syncLoop_skip:
  "hdChild e xb c = ErrInvalidChild \<Longrightarrow>
   syncLoop e xb account branch ns c = syncLoop e xb account branch ns (c - 1)"
  by (subst syncLoop.simps) simp



lemma syncLoop_put:
  "hdChild e xb c = ChildKey kc \<Longrightarrow> addrBucket ns (hdAddress e kc) = None \<Longrightarrow>
   putChainedAddress ns (hdAddress e kc) account branch c = Inr ns1 \<Longrightarrow> c \<noteq> 0 \<Longrightarrow>
   syncLoop e xb account branch ns c = syncLoop e xb account branch ns1 (c - 1)"
  by (subst syncLoop.simps) (simp add: fetchAddress_def)



























end
